theory Spec2Isabelle
  imports Complex_Main "HOL-Library.Product_Lexorder"
begin

section \<open>Numbers and dates\<close>

text \<open>
  The projection engine (\<^verbatim>\<open>src/app/page.tsx\<close>, lines 400 to 1024) computes with
  JavaScript numbers, which are IEEE 754 doubles. The embedding uses \<open>real\<close> for
  money, power, hashrate and fractions, \<open>int\<close> for unit counts and whole months.
  In the power allocator, where a bound on the accumulated power depends on it,
  every floating-point operation is followed by the rounding \<open>roundDouble\<close> to the
  nearest double; the other components are computed exactly. Where the source
  divides by a quantity that may be zero and then tests the result (\<^verbatim>\<open>x || 0\<close>,
  \<^verbatim>\<open>n > 0\<close>), the zero case is written out, since JavaScript yields \<^verbatim>\<open>NaN\<close> or
  \<^verbatim>\<open>Infinity\<close> there and HOL yields \<open>0\<close>.

  A \<^verbatim>\<open>Date\<close> is a calendar day (all dates at midnight of one time zone); months
  are numbered 1 to 12. The order of dates is the lexicographic order of
  (year, month, day), which is the order of the time stamps JavaScript compares.
\<close>

text \<open>
  Rounding to the nearest double, ties to the even significand: a nonzero \<open>x\<close>
  with \<open>2 ^ e \<le> |x| < 2 ^ (e + 1)\<close> is rounded to a multiple of \<open>2 ^ (e - 52)\<close>.
  The exponent range is not bounded (no overflow, no subnormal numbers).
\<close>

definition roundHalfEven :: "real \<Rightarrow> int" where
  "roundHalfEven y =
     (let f = \<lfloor>y\<rfloor>; d = y - of_int f
      in if d < 1 / 2 then f else if 1 / 2 < d then f + 1 else if even f then f else f + 1)"

definition roundDouble :: "real \<Rightarrow> real" where
  "roundDouble x =
     (if x = 0 then 0
      else
        let e = \<lfloor>log 2 \<bar>x\<bar>\<rfloor>;
            ulp = 2 powr (of_int e - 52)
        in sgn x * of_int (roundHalfEven (\<bar>x\<bar> / ulp)) * ulp)"

record Date =
  d_year :: int
  d_month :: int
  d_day :: int

definition dateKey :: "Date \<Rightarrow> int \<times> int \<times> int" where
  "dateKey d = (d_year d, d_month d, d_day d)"

text \<open>\<^verbatim>\<open>isAfter(a, b)\<close> and \<^verbatim>\<open>isBefore(a, b)\<close> of date-fns: strict comparisons.\<close>

definition isAfter :: "Date \<Rightarrow> Date \<Rightarrow> bool" where
  "isAfter a b = (dateKey b < dateKey a)"

definition isBefore :: "Date \<Rightarrow> Date \<Rightarrow> bool" where
  "isBefore a b = (dateKey a < dateKey b)"

definition compareAsc :: "Date \<Rightarrow> Date \<Rightarrow> int" where
  "compareAsc a b = (if dateKey a < dateKey b then - 1 else if dateKey b < dateKey a then 1 else 0)"

definition isLeapYear :: "int \<Rightarrow> bool" where
  "isLeapYear y = (y mod 4 = 0 \<and> (y mod 100 \<noteq> 0 \<or> y mod 400 = 0))"

definition daysInMonth :: "int \<Rightarrow> int \<Rightarrow> int" where
  "daysInMonth y m =
     (if m = 2 then (if isLeapYear y then 29 else 28)
      else if m = 4 \<or> m = 6 \<or> m = 9 \<or> m = 11 then 30 else 31)"

text \<open>
  \<^verbatim>\<open>Date.setMonth\<close> and \<^verbatim>\<open>Date.setDate\<close> carry: a month outside 1 to 12 moves the
  year, a day beyond the end of the month moves into the next month.
\<close>

definition carryDate :: "int \<Rightarrow> int \<Rightarrow> int \<Rightarrow> Date" where
  "carryDate y m d =
     (let y1 = y + (m - 1) div 12;
          m1 = (m - 1) mod 12 + 1;
          n = daysInMonth y1 m1
      in if d \<le> n then \<lparr>d_year = y1, d_month = m1, d_day = d\<rparr>
         else if m1 = 12 then \<lparr>d_year = y1 + 1, d_month = 1, d_day = d - n\<rparr>
         else \<lparr>d_year = y1, d_month = m1 + 1, d_day = d - n\<rparr>)"

definition differenceInCalendarMonths :: "Date \<Rightarrow> Date \<Rightarrow> int" where
  "differenceInCalendarMonths a b = (d_year a - d_year b) * 12 + (d_month a - d_month b)"

definition isLastDayOfMonth :: "Date \<Rightarrow> bool" where
  "isLastDayOfMonth d = (d_day d = daysInMonth (d_year d) (d_month d))"

text \<open>
  \<^verbatim>\<open>differenceInMonths(dateLeft, dateRight)\<close> of date-fns: the number of full months
  between the two dates, signed.
\<close>

definition differenceInMonths :: "Date \<Rightarrow> Date \<Rightarrow> int" where
  "differenceInMonths dateLeft dateRight =
     (let sign = compareAsc dateLeft dateRight;
          difference = \<bar>differenceInCalendarMonths dateLeft dateRight\<bar>
      in if difference < 1 then 0
         else
           let l1 = (if d_month dateLeft = 2 \<and> 27 < d_day dateLeft
                     then carryDate (d_year dateLeft) (d_month dateLeft) 30 else dateLeft);
               l2 = carryDate (d_year l1) (d_month l1 - sign * difference) (d_day l1);
               isLastMonthNotFull =
                 (if isLastDayOfMonth dateLeft \<and> difference = 1 \<and> compareAsc dateLeft dateRight = 1
                  then False else compareAsc l2 dateRight = - sign)
           in sign * (difference - (if isLastMonthNotFull then 1 else 0)))"

text \<open>\<^verbatim>\<open>format(date, "yyyy-MM-dd")\<close>: zero-padded decimal fields.\<close>

definition digitChar :: "nat \<Rightarrow> char" where
  "digitChar n = char_of (48 + n mod 10)"

definition pad2 :: "nat \<Rightarrow> string" where
  "pad2 n = [digitChar (n div 10), digitChar n]"

definition pad4 :: "nat \<Rightarrow> string" where
  "pad4 n = [digitChar (n div 1000), digitChar (n div 100), digitChar (n div 10), digitChar n]"

definition formatDate :: "Date \<Rightarrow> string" where
  "formatDate d = pad4 (nat (d_year d)) @ ''-'' @ pad2 (nat (d_month d)) @ ''-'' @ pad2 (nat (d_day d))"

text \<open>
  \<^verbatim>\<open>xs.reduce((sum, x) => sum + f(x), 0)\<close>: a left fold from 0.
\<close>

definition reduceSum :: "('a \<Rightarrow> 'b::monoid_add) \<Rightarrow> 'a list \<Rightarrow> 'b" where
  "reduceSum f xs = foldl (\<lambda>sum x. sum + f x) 0 xs"

section \<open>Constants\<close>

definition SITE_CAPEX_DEPRECIATION_YEARS :: real where
  "SITE_CAPEX_DEPRECIATION_YEARS = 10"

definition BLOCKS_PER_DAY :: real where
  "BLOCKS_PER_DAY = 144"

definition DAYS_PER_MONTH :: real where
  "DAYS_PER_MONTH = 30"

definition BLOCKS_PER_MONTH :: real where
  "BLOCKS_PER_MONTH = BLOCKS_PER_DAY * DAYS_PER_MONTH"

definition HOURS_PER_MONTH :: real where
  "HOURS_PER_MONTH = 730"

definition FAILURE_SHAPE :: nat where
  "FAILURE_SHAPE = 10"

definition FAILURE_SCALE :: real where
  "FAILURE_SCALE = 98 / 100"

section \<open>Reward schedule\<close>

record Halving =
  h_date :: Date
  h_reward :: real

definition mkDate :: "int \<Rightarrow> int \<Rightarrow> int \<Rightarrow> Date" where
  "mkDate y m d = \<lparr>d_year = y, d_month = m, d_day = d\<rparr>"

definition HALVING_DATES :: "Halving list" where
  "HALVING_DATES =
     [\<lparr>h_date = mkDate 2009 1 3, h_reward = 50\<rparr>,
      \<lparr>h_date = mkDate 2012 11 28, h_reward = 25\<rparr>,
      \<lparr>h_date = mkDate 2016 7 9, h_reward = 25 / 2\<rparr>,
      \<lparr>h_date = mkDate 2020 5 11, h_reward = 625 / 100\<rparr>,
      \<lparr>h_date = mkDate 2024 4 19, h_reward = 3125 / 1000\<rparr>,
      \<lparr>h_date = mkDate 2028 4 1, h_reward = 15625 / 10000\<rparr>,
      \<lparr>h_date = mkDate 2032 4 1, h_reward = 78125 / 100000\<rparr>]"

text \<open>
  The loop of \<^verbatim>\<open>getBlockReward\<close> runs over the table from its last entry to its
  first and stops at the first entry with \<^verbatim>\<open>date >= entry.date\<close>; the reward
  starts at 50.
\<close>

fun scanHalvings :: "Date \<Rightarrow> Halving list \<Rightarrow> real \<Rightarrow> real" where
  "scanHalvings date [] reward = reward"
| "scanHalvings date (h # hs) reward =
     (if dateKey (h_date h) \<le> dateKey date then h_reward h else scanHalvings date hs reward)"

definition getBlockReward :: "Date \<Rightarrow> real" where
  "getBlockReward date = scanHalvings date (rev HALVING_DATES) 50"

section \<open>Failure model\<close>

definition calculateCumulativeFailureRate :: "real \<Rightarrow> real \<Rightarrow> real" where
  "calculateCumulativeFailureRate ageMonths lifespanMonths =
     (if ageMonths \<le> 0 then 0
      else if lifespanMonths \<le> ageMonths then 95 / 100
      else
        let normalizedAge = ageMonths / lifespanMonths;
            scaledAge = normalizedAge / FAILURE_SCALE;
            cumulativeFailure = 1 - exp (- (scaledAge ^ FAILURE_SHAPE))
        in min (cumulativeFailure * (95 / 100)) (95 / 100))"

section \<open>Data model\<close>

text \<open>
  The interfaces of \<^verbatim>\<open>src/lib/types/index.ts\<close>, with the fields the engine reads.
  Field names carry a prefix for their record, since several interfaces share
  names such as \<^verbatim>\<open>id\<close> and \<^verbatim>\<open>siteId\<close>. Date strings are held parsed; the month
  key of a scenario record stays a string, as the engine compares it with a
  formatted date. Optional numbers are \<open>option\<close>s. A unit count
  (\<^verbatim>\<open>quantityMiners\<close>) is a whole number.
\<close>

record CapexBreakdown =
  electrical :: real
  civil :: real
  warehouse :: real
  containers :: real
  office :: real
  itNetworking :: real

record OpexBreakdown =
  insurance :: real
  maintenance :: real
  security :: real
  monitoring :: real

record Tranche =
  tr_id :: string
  tr_powerMW :: real
  tr_startDate :: Date
  tr_rampUpMonths :: real
  tr_uptime :: real
  tr_capex :: CapexBreakdown
  tr_electricityPricePerKWh :: real
  tr_opex :: OpexBreakdown
  tr_poolFee :: real

record Site =
  site_id :: string
  site_name :: string
  site_tranches :: "Tranche list"

record TeamProfile =
  p_id :: string
  p_annualSalary :: real

datatype ScopeType = company | site | tranche

record TeamMember =
  tm_profileId :: string
  tm_scopeType :: ScopeType
  tm_targetId :: "string option"
  tm_startDate :: Date
  tm_employmentRate :: real

record ASICModel =
  m_id :: string
  m_powerW :: real
  m_hashrateThS :: real
  m_pricePerTh :: real

datatype QuantityMode = miners | mw

record ASICFleet =
  f_id :: string
  f_modelId :: string
  f_quantityMode :: QuantityMode
  f_quantityMiners :: "int option"
  f_quantityMW :: "real option"
  f_originationDate :: Date
  f_lifespanYears :: real

record FleetAssignment =
  a_fleetId :: string
  a_siteId :: string
  a_priority :: int

record ScenarioMonthlyData =
  md_month :: string
  md_btcPriceUSD :: real
  md_globalHashrateEH :: real
  md_txFeesPerBlock :: real

record CalculationContext =
  monthlyData :: "ScenarioMonthlyData list"
  sites :: "Site list"
  fleets :: "ASICFleet list"
  fleetAssignments :: "FleetAssignment list"
  teamMembers :: "TeamMember list"
  asicModels :: "ASICModel list"
  teamProfiles :: "TeamProfile list"

record MonthlyFleetStatus =
  fs_fleetId :: string
  fs_totalMiners :: int
  fs_failedMiners :: int
  fs_activeMiners :: int

record MonthlyTrancheStatus =
  ts_siteId :: string
  ts_trancheId :: string
  ts_availablePowerMW :: real
  ts_allocatedMiners :: int
  ts_powerUsedMW :: real
  ts_hashrateThs :: real

record SiteMonthlyMetrics =
  sm_siteId :: string
  sm_siteName :: string
  sm_activeMiners :: int
  sm_powerUsedMW :: real
  sm_hashrateThs :: real
  sm_btcMined :: real
  sm_revenue :: real
  sm_electricityCost :: real
  sm_opexCost :: real
  sm_capexDepreciation :: real
  sm_minerDepreciation :: real
  sm_teamCost :: real
  sm_totalExpenses :: real
  sm_ebitda :: real

record FleetMonthlyMetrics =
  fm_fleetId :: string
  fm_modelId :: string
  fm_activeMiners :: int
  fm_failedMiners :: int

record MonthlyFinancialMetrics =
  monthKey :: string
  activeMiners :: int
  failedMiners :: int
  spareMiners :: int
  totalHashrateThs :: real
  btcMined :: real
  btcAfterPoolFee :: real
  txFeeRevenueBTC :: real
  totalBTC :: real
  revenueUSD :: real
  electricityCost :: real
  opexCost :: real
  capexDepreciation :: real
  minerDepreciation :: real
  teamCost :: real
  totalExpenses :: real
  ebitda :: real
  costPerBTC :: real
  siteMetrics :: "SiteMonthlyMetrics list"
  fleetMetrics :: "FleetMonthlyMetrics list"

section \<open>Fleet aging\<close>

text \<open>
  The unit count of a fleet: \<^verbatim>\<open>fleet.quantityMiners || 0\<close> in mode "miners",
  \<^verbatim>\<open>Math.floor(((fleet.quantityMW || 0) * 1_000_000) / model.powerW)\<close> otherwise.
  The second is finite in the source only for a model with nonzero power draw.
\<close>

definition fleetTotalMiners :: "ASICFleet \<Rightarrow> ASICModel \<Rightarrow> int" where
  "fleetTotalMiners fleet model =
     (if f_quantityMode fleet = miners
      then (case f_quantityMiners fleet of None \<Rightarrow> 0 | Some n \<Rightarrow> n)
      else \<lfloor>((case f_quantityMW fleet of None \<Rightarrow> 0 | Some q \<Rightarrow> q) * 1000000) / m_powerW model\<rfloor>)"

text \<open>The body of the \<^verbatim>\<open>map\<close> callback of \<^verbatim>\<open>calculateFleetStatuses\<close>.\<close>

definition calculateFleetStatus :: "Date \<Rightarrow> CalculationContext \<Rightarrow> ASICFleet \<Rightarrow> MonthlyFleetStatus" where
  "calculateFleetStatus mth ctx fleet =
     (case find (\<lambda>m. m_id m = f_modelId fleet) (asicModels ctx) of
        None \<Rightarrow> \<lparr>fs_fleetId = f_id fleet, fs_totalMiners = 0, fs_failedMiners = 0, fs_activeMiners = 0\<rparr>
      | Some model \<Rightarrow>
          let totalMiners = fleetTotalMiners fleet model;
              originDate = f_originationDate fleet
          in if isAfter mth originDate then
               let monthsSinceOrigination = differenceInMonths mth originDate;
                   lifespanMonths = f_lifespanYears fleet * 12;
                   cumulativeFailureRate =
                     calculateCumulativeFailureRate (real_of_int monthsSinceOrigination) lifespanMonths;
                   failedMiners = \<lfloor>real_of_int totalMiners * cumulativeFailureRate\<rfloor>
               in if lifespanMonths \<le> real_of_int monthsSinceOrigination then
                    \<lparr>fs_fleetId = f_id fleet, fs_totalMiners = totalMiners,
                     fs_failedMiners = \<lfloor>real_of_int totalMiners * (95 / 100)\<rfloor>,
                     fs_activeMiners = \<lceil>real_of_int totalMiners * (5 / 100)\<rceil>\<rparr>
                  else
                    \<lparr>fs_fleetId = f_id fleet, fs_totalMiners = totalMiners,
                     fs_failedMiners = min failedMiners totalMiners,
                     fs_activeMiners = totalMiners - min failedMiners totalMiners\<rparr>
             else
               \<lparr>fs_fleetId = f_id fleet, fs_totalMiners = totalMiners,
                fs_failedMiners = 0, fs_activeMiners = 0\<rparr>)"

definition calculateFleetStatuses :: "Date \<Rightarrow> CalculationContext \<Rightarrow> MonthlyFleetStatus list" where
  "calculateFleetStatuses mth ctx = map (calculateFleetStatus mth ctx) (fleets ctx)"

section \<open>Power allocator\<close>

text \<open>\<^verbatim>\<open>context.sites.flatMap((s) => s.tranches)\<close>.\<close>

definition allTranches :: "CalculationContext \<Rightarrow> Tranche list" where
  "allTranches ctx = concat (map site_tranches (sites ctx))"

text \<open>
  The first loop of \<^verbatim>\<open>allocateFleetsToTranches\<close>: one status for every tranche
  that has started, with its ramp-up-adjusted power.
\<close>

definition trancheAvailablePowerMW :: "Date \<Rightarrow> Tranche \<Rightarrow> real" where
  "trancheAvailablePowerMW mth tr =
     (let monthsSinceStart = real_of_int (differenceInMonths mth (tr_startDate tr))
      in if monthsSinceStart < tr_rampUpMonths tr then
           roundDouble (tr_powerMW tr *
             (if 0 < tr_rampUpMonths tr
              then roundDouble ((monthsSinceStart + 1) / tr_rampUpMonths tr) else 1))
         else tr_powerMW tr)"

definition initialTrancheStatus :: "Date \<Rightarrow> Site \<Rightarrow> Tranche \<Rightarrow> MonthlyTrancheStatus" where
  "initialTrancheStatus mth s tr =
     \<lparr>ts_siteId = site_id s, ts_trancheId = tr_id tr,
      ts_availablePowerMW = trancheAvailablePowerMW mth tr,
      ts_allocatedMiners = 0, ts_powerUsedMW = 0, ts_hashrateThs = 0\<rparr>"

definition siteTrancheStatuses :: "Date \<Rightarrow> Site \<Rightarrow> MonthlyTrancheStatus list" where
  "siteTrancheStatuses mth s =
     map (initialTrancheStatus mth s)
       (filter (\<lambda>tr. \<not> isBefore mth (tr_startDate tr)) (site_tranches s))"

definition buildTrancheStatuses :: "Date \<Rightarrow> CalculationContext \<Rightarrow> MonthlyTrancheStatus list" where
  "buildTrancheStatuses mth ctx = concat (map (siteTrancheStatuses mth) (sites ctx))"

text \<open>
  The sort by start date. The comparator looks each status's tranche up by id
  among all tranches and returns the difference of the start dates;
  \<^verbatim>\<open>Array.prototype.sort\<close> is stable, so this is a stable sort on that key. Every
  status comes from a tranche in the list, so the lookup finds one.
\<close>

definition trancheSortKey :: "CalculationContext \<Rightarrow> MonthlyTrancheStatus \<Rightarrow> int \<times> int \<times> int" where
  "trancheSortKey ctx t =
     (case find (\<lambda>tr. tr_id tr = ts_trancheId t) (allTranches ctx) of
        None \<Rightarrow> (0, 0, 0)
      | Some tr \<Rightarrow> dateKey (tr_startDate tr))"

definition sortTrancheStatuses :: "CalculationContext \<Rightarrow> MonthlyTrancheStatus list \<Rightarrow> MonthlyTrancheStatus list" where
  "sortTrancheStatuses ctx ts = sort_key (trancheSortKey ctx) ts"

text \<open>
  \<^verbatim>\<open>Math.min(availableMiners, Math.floor((remainingPowerMW * 1_000_000) / model.powerW))\<close>
  with the product and the quotient rounded, as far as the test
  \<^verbatim>\<open>minersToAllocate > 0\<close> that follows can tell: with a power draw of zero the
  quotient is \<^verbatim>\<open>Infinity\<close> for a positive remaining power (all available units are
  taken) and \<^verbatim>\<open>NaN\<close> or \<^verbatim>\<open>-Infinity\<close> otherwise (the test fails, as it does for
  0).
\<close>

definition minersToAllocateOf :: "int \<Rightarrow> real \<Rightarrow> real \<Rightarrow> int" where
  "minersToAllocateOf availableMiners remainingPowerMW powerW =
     (if powerW = 0 then (if 0 < remainingPowerMW then availableMiners else 0)
      else min availableMiners
             \<lfloor>roundDouble (roundDouble (remainingPowerMW * 1000000) / powerW)\<rfloor>)"

text \<open>\<^verbatim>\<open>trancheDetails?.uptime || 1\<close>.\<close>

definition trancheUptime :: "CalculationContext \<Rightarrow> string \<Rightarrow> real" where
  "trancheUptime ctx trancheId =
     (case find (\<lambda>tr. tr_id tr = trancheId) (allTranches ctx) of
        None \<Rightarrow> 1
      | Some tr \<Rightarrow> if tr_uptime tr = 0 then 1 else tr_uptime tr)"

text \<open>
  One iteration of the inner loop, over one assignment of the tranche's site.
  The state is the tranche's status and the map \<^verbatim>\<open>allocatedFleets\<close> (fleet id to
  units allocated so far this month). The subtraction, the products, the
  quotients and the sums on power and hashrate are rounded one by one, in the
  order JavaScript evaluates them; the unit counts are whole numbers and exact.
\<close>

type_synonym AllocatedFleets = "string \<rightharpoonup> int"

definition allocateAssignment ::
  "CalculationContext \<Rightarrow> MonthlyFleetStatus list \<Rightarrow> MonthlyTrancheStatus \<times> AllocatedFleets \<Rightarrow>
   FleetAssignment \<Rightarrow> MonthlyTrancheStatus \<times> AllocatedFleets" where
  "allocateAssignment ctx fleetStatuses st assignment =
     (let tr = fst st; allocatedFleets = snd st in
      case find (\<lambda>f. fs_fleetId f = a_fleetId assignment) fleetStatuses of
        None \<Rightarrow> st
      | Some fleetStatus \<Rightarrow>
          if fs_activeMiners fleetStatus = 0 then st
          else
            (case find (\<lambda>f. f_id f = a_fleetId assignment) (fleets ctx) of
               None \<Rightarrow> st
             | Some fleet \<Rightarrow>
                 (case find (\<lambda>m. m_id m = f_modelId fleet) (asicModels ctx) of
                    None \<Rightarrow> st
                  | Some model \<Rightarrow>
                      let alreadyAllocated =
                            (case allocatedFleets (f_id fleet) of None \<Rightarrow> 0 | Some n \<Rightarrow> n);
                          availableMiners = fs_activeMiners fleetStatus - alreadyAllocated
                      in if availableMiners \<le> 0 then st
                         else
                           let remainingPowerMW =
                                 roundDouble (ts_availablePowerMW tr - ts_powerUsedMW tr);
                               minersToAllocate =
                                 minersToAllocateOf availableMiners remainingPowerMW (m_powerW model)
                           in if 0 < minersToAllocate then
                                (tr\<lparr>ts_allocatedMiners := ts_allocatedMiners tr + minersToAllocate,
                                    ts_powerUsedMW := roundDouble (ts_powerUsedMW tr +
                                      roundDouble (roundDouble
                                        (real_of_int minersToAllocate * m_powerW model) / 1000000)),
                                    ts_hashrateThs := roundDouble (ts_hashrateThs tr +
                                      roundDouble (roundDouble
                                        (real_of_int minersToAllocate * m_hashrateThS model) *
                                        trancheUptime ctx (ts_trancheId tr)))\<rparr>,
                                 allocatedFleets(f_id fleet \<mapsto> alreadyAllocated + minersToAllocate))
                              else st)))"

text \<open>The inner loop: the assignments of the tranche's site, in the order of the collection.\<close>

definition allocateTranche ::
  "CalculationContext \<Rightarrow> MonthlyFleetStatus list \<Rightarrow> MonthlyTrancheStatus \<Rightarrow> AllocatedFleets \<Rightarrow>
   MonthlyTrancheStatus \<times> AllocatedFleets" where
  "allocateTranche ctx fleetStatuses tr allocatedFleets =
     (let siteAssignments = filter (\<lambda>a. a_siteId a = ts_siteId tr) (fleetAssignments ctx)
      in foldl (allocateAssignment ctx fleetStatuses) (tr, allocatedFleets) siteAssignments)"

text \<open>The outer loop over the sorted statuses, threading the map.\<close>

fun allocateLoop ::
  "CalculationContext \<Rightarrow> MonthlyFleetStatus list \<Rightarrow> MonthlyTrancheStatus list \<Rightarrow> AllocatedFleets \<Rightarrow>
   MonthlyTrancheStatus list \<times> AllocatedFleets" where
  "allocateLoop ctx fleetStatuses [] allocatedFleets = ([], allocatedFleets)"
| "allocateLoop ctx fleetStatuses (tr # rest) allocatedFleets =
     (let st = allocateTranche ctx fleetStatuses tr allocatedFleets;
          r = allocateLoop ctx fleetStatuses rest (snd st)
      in (fst st # fst r, snd r))"

text \<open>
  \<^verbatim>\<open>allocateFleetsToTranches\<close> returns the statuses; \<open>allocationRun\<close> also keeps the
  final \<^verbatim>\<open>allocatedFleets\<close> map, which the source drops.
\<close>

definition allocationRun ::
  "Date \<Rightarrow> CalculationContext \<Rightarrow> MonthlyFleetStatus list \<Rightarrow> MonthlyTrancheStatus list \<times> AllocatedFleets" where
  "allocationRun mth ctx fleetStatuses =
     allocateLoop ctx fleetStatuses (sortTrancheStatuses ctx (buildTrancheStatuses mth ctx)) Map.empty"

definition allocateFleetsToTranches ::
  "Date \<Rightarrow> CalculationContext \<Rightarrow> MonthlyFleetStatus list \<Rightarrow> MonthlyTrancheStatus list" where
  "allocateFleetsToTranches mth ctx fleetStatuses = fst (allocationRun mth ctx fleetStatuses)"

text \<open>Units of a fleet allocated over all tranches in the month: \<^verbatim>\<open>allocatedFleets.get(id) || 0\<close>.\<close>

definition unitsAllocated :: "AllocatedFleets \<Rightarrow> string \<Rightarrow> int" where
  "unitsAllocated allocatedFleets fleetId = (case allocatedFleets fleetId of None \<Rightarrow> 0 | Some n \<Rightarrow> n)"

section \<open>Cost aggregation\<close>

definition calculateTeamCosts :: "Date \<Rightarrow> CalculationContext \<Rightarrow> ScopeType \<Rightarrow> string option \<Rightarrow> real" where
  "calculateTeamCosts mth ctx scopeType targetId =
     (let relevantMembers =
            filter (\<lambda>member. tm_scopeType member = scopeType \<and>
                      (scopeType = company \<or> tm_targetId member = targetId)) (teamMembers ctx)
      in foldl (\<lambda>totalCost member.
           if isBefore mth (tm_startDate member) then totalCost
           else (case find (\<lambda>p. p_id p = tm_profileId member) (teamProfiles ctx) of
                   None \<Rightarrow> totalCost
                 | Some profile \<Rightarrow>
                     totalCost + (p_annualSalary profile * tm_employmentRate member) / 12))
         0 relevantMembers)"

text \<open>
  One iteration of the loop of \<^verbatim>\<open>calculateMinerDepreciation\<close>: what one assignment
  adds to the site's total.
\<close>

definition assignmentDepreciation :: "Date \<Rightarrow> CalculationContext \<Rightarrow> FleetAssignment \<Rightarrow> real" where
  "assignmentDepreciation mth ctx assignment =
     (case find (\<lambda>f. f_id f = a_fleetId assignment) (fleets ctx) of
        None \<Rightarrow> 0
      | Some fleet \<Rightarrow>
          (case find (\<lambda>m. m_id m = f_modelId fleet) (asicModels ctx) of
             None \<Rightarrow> 0
           | Some model \<Rightarrow>
               let originDate = f_originationDate fleet
               in if isBefore mth originDate then 0
                  else
                    let monthsSinceOrigination = differenceInMonths mth originDate;
                        lifespanMonths = f_lifespanYears fleet * 12
                    in if lifespanMonths \<le> real_of_int monthsSinceOrigination then 0
                       else
                         let totalMiners = fleetTotalMiners fleet model;
                             totalHashrateTh = real_of_int totalMiners * m_hashrateThS model;
                             fleetCost = totalHashrateTh * m_pricePerTh model
                         in fleetCost / lifespanMonths))"

definition calculateMinerDepreciation :: "Date \<Rightarrow> string \<Rightarrow> CalculationContext \<Rightarrow> real" where
  "calculateMinerDepreciation mth siteId ctx =
     (let siteFleetAssignments = filter (\<lambda>a. a_siteId a = siteId) (fleetAssignments ctx)
      in foldl (\<lambda>totalDepreciation assignment.
                  totalDepreciation + assignmentDepreciation mth ctx assignment)
           0 siteFleetAssignments)"

definition capexTotal :: "CapexBreakdown \<Rightarrow> real" where
  "capexTotal c = electrical c + civil c + warehouse c + containers c + office c + itNetworking c"

definition opexTotal :: "OpexBreakdown \<Rightarrow> real" where
  "opexTotal c = insurance c + maintenance c + security c + monitoring c"

section \<open>Monthly metrics\<close>

text \<open>
  The economic inputs of a month: the first scenario record whose \<^verbatim>\<open>month\<close> equals
  the formatted month, and \<^verbatim>\<open>economicData?.field || default\<close> for each field.
\<close>

definition economicData :: "Date \<Rightarrow> CalculationContext \<Rightarrow> ScenarioMonthlyData option" where
  "economicData mth ctx = find (\<lambda>d. md_month d = formatDate mth) (monthlyData ctx)"

definition orDefault :: "real option \<Rightarrow> real \<Rightarrow> real" where
  "orDefault v dflt = (case v of None \<Rightarrow> dflt | Some x \<Rightarrow> if x = 0 then dflt else x)"

definition btcPriceUSDOf :: "Date \<Rightarrow> CalculationContext \<Rightarrow> real" where
  "btcPriceUSDOf mth ctx = orDefault (map_option md_btcPriceUSD (economicData mth ctx)) 40000"

definition globalHashrateEHOf :: "Date \<Rightarrow> CalculationContext \<Rightarrow> real" where
  "globalHashrateEHOf mth ctx = orDefault (map_option md_globalHashrateEH (economicData mth ctx)) 500"

definition txFeesPerBlockOf :: "Date \<Rightarrow> CalculationContext \<Rightarrow> real" where
  "txFeesPerBlockOf mth ctx = orDefault (map_option md_txFeesPerBlock (economicData mth ctx)) (5 / 100)"

text \<open>
  The body of the loop over the sites: \<open>None\<close> for a site with no live tranche
  (\<^verbatim>\<open>continue\<close>). In \<^verbatim>\<open>(siteHashrate / totalHashrateThs) * btcMinedGross || 0\<close> a
  total hashrate of zero makes the gross figure zero, so the product is \<^verbatim>\<open>NaN\<close>
  and the result 0. In the average pool fee, a site hashrate of zero gives
  \<^verbatim>\<open>NaN\<close>, hence 0, when the tranche hashrates are not negative.
\<close>

definition siteMetricsOf ::
  "Date \<Rightarrow> CalculationContext \<Rightarrow> MonthlyTrancheStatus list \<Rightarrow> real \<Rightarrow> real \<Rightarrow> real \<Rightarrow> real \<Rightarrow>
   Site \<Rightarrow> SiteMonthlyMetrics option" where
  "siteMetricsOf mth ctx trancheStatuses totalHashrate btcMinedGross txFeeRevenue btcPriceUSD s =
     (let siteTranches = filter (\<lambda>t. ts_siteId t = site_id s) trancheStatuses
      in if length siteTranches = 0 then None
         else
           let siteHashrate = reduceSum ts_hashrateThs siteTranches;
               siteBtcMined =
                 (if totalHashrate = 0 then 0 else (siteHashrate / totalHashrate) * btcMinedGross);
               siteTxFees =
                 (if totalHashrate = 0 then 0 else (siteHashrate / totalHashrate) * txFeeRevenue);
               trancheOf = (\<lambda>t. find (\<lambda>tr. tr_id tr = ts_trancheId t) (site_tranches s));
               avgPoolFee =
                 (if siteHashrate = 0 then 0
                  else reduceSum (\<lambda>t. (case trancheOf t of None \<Rightarrow> 0 | Some tr \<Rightarrow> tr_poolFee tr) *
                                         ts_hashrateThs t) siteTranches / siteHashrate);
               siteBtcAfterFee = (siteBtcMined + siteTxFees) * (1 - avgPoolFee);
               siteMiners = reduceSum ts_allocatedMiners siteTranches;
               sitePowerUsed = reduceSum ts_powerUsedMW siteTranches;
               siteElectricityCost =
                 reduceSum (\<lambda>t. case trancheOf t of None \<Rightarrow> 0
                                 | Some tr \<Rightarrow> ts_powerUsedMW t * 1000 * HOURS_PER_MONTH *
                                     tr_electricityPricePerKWh tr) siteTranches;
               siteOpex =
                 reduceSum (\<lambda>t. case trancheOf t of None \<Rightarrow> 0
                                 | Some tr \<Rightarrow> opexTotal (tr_opex tr) / 12) siteTranches;
               siteCapex =
                 reduceSum (\<lambda>t. case trancheOf t of None \<Rightarrow> 0
                                 | Some tr \<Rightarrow> capexTotal (tr_capex tr) /
                                     (SITE_CAPEX_DEPRECIATION_YEARS * 12)) siteTranches;
               siteMinerDepreciation = calculateMinerDepreciation mth (site_id s) ctx;
               siteTeamCost = calculateTeamCosts mth ctx site (Some (site_id s));
               trancheTeamCost =
                 reduceSum (\<lambda>t. calculateTeamCosts mth ctx tranche (Some (ts_trancheId t))) siteTranches;
               siteTotalTeamCost = siteTeamCost + trancheTeamCost;
               siteTotalExpenses =
                 siteElectricityCost + siteOpex + siteCapex + siteMinerDepreciation + siteTotalTeamCost;
               siteRevenue = siteBtcAfterFee * btcPriceUSD;
               siteEbitda = siteRevenue - (siteElectricityCost + siteOpex + siteTotalTeamCost)
           in Some \<lparr>sm_siteId = site_id s, sm_siteName = site_name s,
                    sm_activeMiners = siteMiners, sm_powerUsedMW = sitePowerUsed,
                    sm_hashrateThs = siteHashrate, sm_btcMined = siteBtcAfterFee,
                    sm_revenue = siteRevenue, sm_electricityCost = siteElectricityCost,
                    sm_opexCost = siteOpex, sm_capexDepreciation = siteCapex,
                    sm_minerDepreciation = siteMinerDepreciation, sm_teamCost = siteTotalTeamCost,
                    sm_totalExpenses = siteTotalExpenses, sm_ebitda = siteEbitda\<rparr>)"

definition fleetMetricsOf :: "CalculationContext \<Rightarrow> MonthlyFleetStatus \<Rightarrow> FleetMonthlyMetrics" where
  "fleetMetricsOf ctx fs =
     \<lparr>fm_fleetId = fs_fleetId fs,
      fm_modelId = (case find (\<lambda>f. f_id f = fs_fleetId fs) (fleets ctx) of
                      None \<Rightarrow> [] | Some fleet \<Rightarrow> f_modelId fleet),
      fm_activeMiners = fs_activeMiners fs, fm_failedMiners = fs_failedMiners fs\<rparr>"

definition calculateMonthMetrics :: "Date \<Rightarrow> CalculationContext \<Rightarrow> MonthlyFinancialMetrics" where
  "calculateMonthMetrics mth ctx =
     (let monthStr = formatDate mth;
          btcPriceUSD = btcPriceUSDOf mth ctx;
          globalHashrateEH = globalHashrateEHOf mth ctx;
          txFeesPerBlock = txFeesPerBlockOf mth ctx;
          fleetStatuses = calculateFleetStatuses mth ctx;
          trancheStatuses = allocateFleetsToTranches mth ctx fleetStatuses;
          totalActiveMiners = reduceSum ts_allocatedMiners trancheStatuses;
          totalFailedMiners = reduceSum fs_failedMiners fleetStatuses;
          totalMinersInFleets = reduceSum fs_totalMiners fleetStatuses;
          spare = totalMinersInFleets - totalFailedMiners - totalActiveMiners;
          totalHashrate = reduceSum ts_hashrateThs trancheStatuses;
          blockReward = getBlockReward mth;
          globalHashrateThS = globalHashrateEH * 1000000;
          hashrateFraction = (if 0 < globalHashrateThS then totalHashrate / globalHashrateThS else 0);
          btcMinedGross = hashrateFraction * blockReward * BLOCKS_PER_MONTH;
          txFeeRevenue = hashrateFraction * txFeesPerBlock * BLOCKS_PER_MONTH;
          siteMs = List.map_filter
                     (siteMetricsOf mth ctx trancheStatuses totalHashrate btcMinedGross txFeeRevenue
                        btcPriceUSD) (sites ctx);
          btcAfterFee = reduceSum sm_btcMined siteMs;
          total = btcAfterFee;
          revenue = total * btcPriceUSD;
          electricity = reduceSum sm_electricityCost siteMs;
          opex = reduceSum sm_opexCost siteMs;
          capexDep = reduceSum sm_capexDepreciation siteMs;
          minerDep = reduceSum sm_minerDepreciation siteMs;
          siteTeamCostTotal = reduceSum sm_teamCost siteMs;
          companyTeamCost = calculateTeamCosts mth ctx company None;
          team = siteTeamCostTotal + companyTeamCost;
          expenses = electricity + opex + capexDep + minerDep + team;
          ebitdaV = revenue - (electricity + opex + team);
          costPerCoin = (if 0 < total then expenses / total else 0)
      in \<lparr>monthKey = monthStr, activeMiners = totalActiveMiners, failedMiners = totalFailedMiners,
          spareMiners = spare, totalHashrateThs = totalHashrate, btcMined = btcMinedGross,
          btcAfterPoolFee = total, txFeeRevenueBTC = txFeeRevenue, totalBTC = total,
          revenueUSD = revenue, electricityCost = electricity, opexCost = opex,
          capexDepreciation = capexDep, minerDepreciation = minerDep, teamCost = team,
          totalExpenses = expenses, ebitda = ebitdaV, costPerBTC = costPerCoin,
          siteMetrics = siteMs, fleetMetrics = map (fleetMetricsOf ctx) fleetStatuses\<rparr>)"

section \<open>Auxiliary notions for the statements\<close>

text \<open>
  The units of the fleets that originate after the month:
  \<^verbatim>\<open>calculateFleetStatuses\<close> reports them as total units with no failed and no
  active unit.
\<close>

definition notYetOriginatedUnits :: "Date \<Rightarrow> CalculationContext \<Rightarrow> int" where
  "notYetOriginatedUnits mth ctx =
     sum_list (map (\<lambda>f. fs_totalMiners (calculateFleetStatus mth ctx f))
       (filter (\<lambda>f. isBefore mth (f_originationDate f)) (fleets ctx)))"

text \<open>The invariants of the allocation loops, and the state after taking \<open>k\<close> units.\<close>

definition trancheOk :: "MonthlyTrancheStatus \<Rightarrow> bool" where
  "trancheOk t =
     (0 \<le> ts_allocatedMiners t \<and> 0 \<le> ts_powerUsedMW t \<and>
      ts_powerUsedMW t \<le> ts_availablePowerMW t * (1 + 1 / 2 ^ 53) ^ 6)"

definition allocOk :: "MonthlyFleetStatus list \<Rightarrow> AllocatedFleets \<Rightarrow> bool" where
  "allocOk fleetStatuses al =
     (\<forall>fid v. al fid = Some v \<longrightarrow>
        0 < v \<and> (\<exists>fs. find (\<lambda>f. fs_fleetId f = fid) fleetStatuses = Some fs \<and> v \<le> fs_activeMiners fs))"

definition takeUnits ::
  "CalculationContext \<Rightarrow> MonthlyTrancheStatus \<Rightarrow> AllocatedFleets \<Rightarrow> ASICFleet \<Rightarrow> ASICModel \<Rightarrow> int \<Rightarrow>
   MonthlyTrancheStatus \<times> AllocatedFleets" where
  "takeUnits ctx tr al fleet model k =
     (tr\<lparr>ts_allocatedMiners := ts_allocatedMiners tr + k,
         ts_powerUsedMW := roundDouble (ts_powerUsedMW tr +
           roundDouble (roundDouble (real_of_int k * m_powerW model) / 1000000)),
         ts_hashrateThs := roundDouble (ts_hashrateThs tr +
           roundDouble (roundDouble (real_of_int k * m_hashrateThS model) *
             trancheUptime ctx (ts_trancheId tr)))\<rparr>,
      al(f_id fleet \<mapsto> unitsAllocated al (f_id fleet) + k))"

text \<open>
  The units allocated to all fleets, summed over the fleet ids of the project.
\<close>

definition fleetIds :: "CalculationContext \<Rightarrow> string list" where
  "fleetIds ctx = remdups (map f_id (fleets ctx))"

definition unitsAllocatedToFleets :: "CalculationContext \<Rightarrow> AllocatedFleets \<Rightarrow> int" where
  "unitsAllocatedToFleets ctx al = sum_list (map (unitsAllocated al) (fleetIds ctx))"

text \<open>The same project with other priorities on its fleet assignments.\<close>

definition withPriorities :: "(FleetAssignment \<Rightarrow> int) \<Rightarrow> CalculationContext \<Rightarrow> CalculationContext" where
  "withPriorities priorityOf ctx =
     ctx\<lparr>fleetAssignments := map (\<lambda>a. a\<lparr>a_priority := priorityOf a\<rparr>) (fleetAssignments ctx)\<rparr>"

text \<open>
  The scenario record that spells the engine's defaults out for a month.
\<close>

definition defaultEconomicData :: "Date \<Rightarrow> ScenarioMonthlyData" where
  "defaultEconomicData mth =
     \<lparr>md_month = formatDate mth, md_btcPriceUSD = 40000, md_globalHashrateEH = 500,
      md_txFeesPerBlock = 5 / 100\<rparr>"


text \<open>
  The same project with other inputs to depreciation: every tranche's CAPEX
  breakdown and every hardware model's price per TH/s replaced.
\<close>

definition withDepreciationInputs ::
  "(Tranche \<Rightarrow> CapexBreakdown) \<Rightarrow> (ASICModel \<Rightarrow> real) \<Rightarrow> CalculationContext \<Rightarrow> CalculationContext" where
  "withDepreciationInputs capexOf priceOf ctx =
     ctx\<lparr>sites := map (\<lambda>s. s\<lparr>site_tranches :=
                               map (\<lambda>tr. tr\<lparr>tr_capex := capexOf tr\<rparr>) (site_tranches s)\<rparr>) (sites ctx),
         asicModels := map (\<lambda>m. m\<lparr>m_pricePerTh := priceOf m\<rparr>) (asicModels ctx)\<rparr>"

section \<open>An example project\<close>

text \<open>
  Two sites of one 3 MW tranche each (the second starts in 2026), two hardware
  models of 3000 W, two fleets of 1000 units delivered in December 2023 and one
  of 500 units due in 2025. Fleet B is listed first among the assignments of site
  S1 but has the higher priority number; fleet A is also assigned to site S2.
\<close>

definition exModelA :: ASICModel where
  "exModelA = \<lparr>m_id = ''S19'', m_powerW = 3000, m_hashrateThS = 100, m_pricePerTh = 20\<rparr>"

definition exModelB :: ASICModel where
  "exModelB = \<lparr>m_id = ''S21'', m_powerW = 3000, m_hashrateThS = 200, m_pricePerTh = 15\<rparr>"

definition exFleetA :: ASICFleet where
  "exFleetA = \<lparr>f_id = ''A'', f_modelId = ''S19'', f_quantityMode = miners,
     f_quantityMiners = Some 1000, f_quantityMW = None,
     f_originationDate = mkDate 2023 12 15, f_lifespanYears = 5\<rparr>"

definition exFleetB :: ASICFleet where
  "exFleetB = \<lparr>f_id = ''B'', f_modelId = ''S21'', f_quantityMode = miners,
     f_quantityMiners = Some 1000, f_quantityMW = None,
     f_originationDate = mkDate 2023 12 15, f_lifespanYears = 5\<rparr>"

definition exFleetLate :: ASICFleet where
  "exFleetLate = \<lparr>f_id = ''L'', f_modelId = ''S19'', f_quantityMode = miners,
     f_quantityMiners = Some 500, f_quantityMW = None,
     f_originationDate = mkDate 2025 1 1, f_lifespanYears = 5\<rparr>"

definition exCapex :: CapexBreakdown where
  "exCapex = \<lparr>electrical = 1200000, civil = 0, warehouse = 0, containers = 0, office = 0,
     itNetworking = 0\<rparr>"

definition exOpex :: OpexBreakdown where
  "exOpex = \<lparr>insurance = 12000, maintenance = 0, security = 0, monitoring = 0\<rparr>"

definition exTranche1 :: Tranche where
  "exTranche1 = \<lparr>tr_id = ''T1'', tr_powerMW = 3, tr_startDate = mkDate 2024 1 1,
     tr_rampUpMonths = 0, tr_uptime = 1, tr_capex = exCapex,
     tr_electricityPricePerKWh = 5 / 100, tr_opex = exOpex, tr_poolFee = 0\<rparr>"

definition exTranche2 :: Tranche where
  "exTranche2 = \<lparr>tr_id = ''T2'', tr_powerMW = 3, tr_startDate = mkDate 2026 1 1,
     tr_rampUpMonths = 0, tr_uptime = 1, tr_capex = exCapex,
     tr_electricityPricePerKWh = 5 / 100, tr_opex = exOpex, tr_poolFee = 0\<rparr>"

definition exSite1 :: Site where
  "exSite1 = \<lparr>site_id = ''S1'', site_name = ''North'', site_tranches = [exTranche1]\<rparr>"

definition exSite2 :: Site where
  "exSite2 = \<lparr>site_id = ''S2'', site_name = ''South'', site_tranches = [exTranche2]\<rparr>"

definition exAssignments :: "FleetAssignment list" where
  "exAssignments =
     [\<lparr>a_fleetId = ''B'', a_siteId = ''S1'', a_priority = 2\<rparr>,
      \<lparr>a_fleetId = ''A'', a_siteId = ''S1'', a_priority = 1\<rparr>,
      \<lparr>a_fleetId = ''A'', a_siteId = ''S2'', a_priority = 1\<rparr>]"

definition exCtx :: CalculationContext where
  "exCtx = \<lparr>monthlyData = [], sites = [exSite1, exSite2],
     fleets = [exFleetA, exFleetB, exFleetLate],
     fleetAssignments = exAssignments,
     teamMembers = [\<lparr>tm_profileId = ''P'', tm_scopeType = company, tm_targetId = None,
                      tm_startDate = mkDate 2024 1 1, tm_employmentRate = 1\<rparr>],
     asicModels = [exModelA, exModelB],
     teamProfiles = [\<lparr>p_id = ''P'', p_annualSalary = 120000\<rparr>]\<rparr>"

definition exMonth :: Date where
  "exMonth = mkDate 2024 1 1"

text \<open>
  The example with a scenario that has no record for January 2024 and a record
  of zeros for March 2024.
\<close>

definition exScenario :: "ScenarioMonthlyData list" where
  "exScenario =
     [\<lparr>md_month = ''2024-02-01'', md_btcPriceUSD = 42000, md_globalHashrateEH = 600,
       md_txFeesPerBlock = 1 / 10\<rparr>,
      \<lparr>md_month = ''2024-03-01'', md_btcPriceUSD = 0, md_globalHashrateEH = 0,
       md_txFeesPerBlock = 0\<rparr>]"

definition exCtxScenario :: CalculationContext where
  "exCtxScenario = exCtx\<lparr>monthlyData := exScenario\<rparr>"

definition exZeroCapex :: CapexBreakdown where
  "exZeroCapex = \<lparr>electrical = 0, civil = 0, warehouse = 0, containers = 0, office = 0,
     itNetworking = 0\<rparr>"

text \<open>
  A small project for the power budget: the site S1 with a tranche of 0.12 MW
  (the double nearest to 0.12), and two fleets of the 3000 W model, of 1 and of
  100000 units, assigned to it in that order.
\<close>

definition exFleetX :: ASICFleet where
  "exFleetX = \<lparr>f_id = ''X'', f_modelId = ''S19'', f_quantityMode = miners,
     f_quantityMiners = Some 1, f_quantityMW = None,
     f_originationDate = mkDate 2023 12 15, f_lifespanYears = 5\<rparr>"

definition exFleetY :: ASICFleet where
  "exFleetY = \<lparr>f_id = ''Y'', f_modelId = ''S19'', f_quantityMode = miners,
     f_quantityMiners = Some 100000, f_quantityMW = None,
     f_originationDate = mkDate 2023 12 15, f_lifespanYears = 5\<rparr>"

definition exTrancheSmall :: Tranche where
  "exTrancheSmall = exTranche1\<lparr>tr_powerMW := roundDouble (12 / 100)\<rparr>"

definition exCtxSmall :: CalculationContext where
  "exCtxSmall = exCtx\<lparr>sites := [exSite1\<lparr>site_tranches := [exTrancheSmall]\<rparr>],
     fleets := [exFleetX, exFleetY],
     fleetAssignments :=
       [\<lparr>a_fleetId = ''X'', a_siteId = ''S1'', a_priority = 1\<rparr>,
        \<lparr>a_fleetId = ''Y'', a_siteId = ''S1'', a_priority = 2\<rparr>]\<rparr>"



section \<open>Properties of the reward schedule\<close>

lemma scanHalvings_rev_last:
  "scanHalvings date (rev hs) r =
     (if filter (\<lambda>h. dateKey (h_date h) \<le> dateKey date) hs = [] then r
      else h_reward (last (filter (\<lambda>h. dateKey (h_date h) \<le> dateKey date) hs)))"
proof (induction hs rule: rev_induct)
  case Nil
  show ?case by simp
next
  case (snoc h hs)
  show ?case
  proof (cases "dateKey (h_date h) \<le> dateKey date")
    case True
    then show ?thesis by simp
  next
    case False
    then show ?thesis using snoc.IH by simp
  qed
qed

lemma HALVING_DATES_sorted:
  "sorted (map (\<lambda>h. dateKey (h_date h)) HALVING_DATES)"
  by (simp add: HALVING_DATES_def mkDate_def dateKey_def)

lemma HALVING_DATES_distinct:
  "distinct (map (\<lambda>h. dateKey (h_date h)) HALVING_DATES)"
  by (simp add: HALVING_DATES_def mkDate_def dateKey_def)

lemma sorted_le_last:
  "sorted (map k ys) \<Longrightarrow> y \<in> set ys \<Longrightarrow> k y \<le> k (last ys)"
  by (induction ys) auto

lemma sorted_filter_last_max:
  assumes "sorted (map k xs)" and "x \<in> set xs" and "P x"
  shows "filter P xs \<noteq> [] \<and> k x \<le> k (last (filter P xs)) \<and>
         last (filter P xs) \<in> set xs \<and> P (last (filter P xs))"
proof -
  let ?ys = "filter P xs"
  have ne: "?ys \<noteq> []" using assms(2,3) by (auto simp: filter_empty_conv)
  have s: "sorted (map k ?ys)" using assms(1) by (simp add: sorted_filter)
  have xin: "x \<in> set ?ys" using assms(2,3) by simp
  have l: "last ?ys \<in> set ?ys" using ne by (rule last_in_set)
  have a: "k x \<le> k (last ?ys)" using s xin by (rule sorted_le_last)
  have "last ?ys \<in> {y \<in> set xs. P y}" using l by (simp only: set_filter)
  then have b: "last ?ys \<in> set xs" and c: "P (last ?ys)" by blast+
  from ne a b c show ?thesis by blast
qed

lemma getBlockReward_latest:
  assumes hin: "h \<in> set HALVING_DATES"
    and le: "dateKey (h_date h) \<le> dateKey date"
    and mx: "\<forall>h' \<in> set HALVING_DATES.
               dateKey (h_date h') \<le> dateKey date \<longrightarrow> dateKey (h_date h') \<le> dateKey (h_date h)"
  shows "getBlockReward date = h_reward h"
proof -
  let ?P = "\<lambda>h. dateKey (h_date h) \<le> dateKey date"
  let ?ys = "filter ?P HALVING_DATES"
  from sorted_filter_last_max[OF HALVING_DATES_sorted hin, of ?P] le
  have ne: "?ys \<noteq> []" and ge: "dateKey (h_date h) \<le> dateKey (h_date (last ?ys))"
    and lin: "last ?ys \<in> set HALVING_DATES" and lP: "?P (last ?ys)" by auto
  from mx lin lP have "dateKey (h_date (last ?ys)) \<le> dateKey (h_date h)" by blast
  with ge have eq: "dateKey (h_date (last ?ys)) = dateKey (h_date h)" by simp
  have "inj_on (\<lambda>h. dateKey (h_date h)) (set HALVING_DATES)"
    using HALVING_DATES_distinct by (simp add: distinct_map)
  with eq lin hin have "last ?ys = h" by (auto dest: inj_onD)
  moreover have "getBlockReward date = h_reward (last ?ys)"
    unfolding getBlockReward_def scanHalvings_rev_last using ne by simp
  ultimately show ?thesis by simp
qed

lemma getBlockReward_before_first:
  assumes "dateKey date < dateKey (h_date (hd HALVING_DATES))"
  shows "getBlockReward date = 50"
proof -
  have "\<forall>h \<in> set HALVING_DATES. dateKey (h_date (hd HALVING_DATES)) \<le> dateKey (h_date h)"
    by (simp add: HALVING_DATES_def mkDate_def dateKey_def)
  with assms have "\<forall>h \<in> set HALVING_DATES. \<not> dateKey (h_date h) \<le> dateKey date" by fastforce
  then have "filter (\<lambda>h. dateKey (h_date h) \<le> dateKey date) HALVING_DATES = []"
    by (simp add: filter_empty_conv)
  then show ?thesis unfolding getBlockReward_def scanHalvings_rev_last by simp
qed

lemma getBlockReward_boundary:
  "getBlockReward (mkDate 2024 4 18) = 625 / 100 \<and> getBlockReward (mkDate 2024 4 19) = 3125 / 1000"
  by (simp add: getBlockReward_def HALVING_DATES_def mkDate_def dateKey_def)

text \<open>
  C7. For every date, \<open>getBlockReward\<close> returns the reward of the latest entry of the
  halving table whose date is not after the given date (the entry \<open>h\<close> of the table
  that is not after the date and that no other such entry is later than); for a
  date before the first entry it returns that entry's reward, 50. On 2024-04-18
  the reward is 6.25 and on 2024-04-19 it is 3.125.
\<close>

theorem C7_block_reward_latest_entry:
  "(\<forall>h \<in> set HALVING_DATES.
      dateKey (h_date h) \<le> dateKey date \<and>
      (\<forall>h' \<in> set HALVING_DATES.
         dateKey (h_date h') \<le> dateKey date \<longrightarrow> dateKey (h_date h') \<le> dateKey (h_date h))
      \<longrightarrow> getBlockReward date = h_reward h) \<and>
   (dateKey date < dateKey (h_date (hd HALVING_DATES)) \<longrightarrow>
      getBlockReward date = h_reward (hd HALVING_DATES) \<and> getBlockReward date = 50) \<and>
   getBlockReward (mkDate 2024 4 18) = 625 / 100 \<and>
   getBlockReward (mkDate 2024 4 19) = 3125 / 1000"
proof (intro conjI ballI impI)
  fix h
  assume "h \<in> set HALVING_DATES"
    and "dateKey (h_date h) \<le> dateKey date \<and>
         (\<forall>h' \<in> set HALVING_DATES.
            dateKey (h_date h') \<le> dateKey date \<longrightarrow> dateKey (h_date h') \<le> dateKey (h_date h))"
  then show "getBlockReward date = h_reward h"
    using getBlockReward_latest by blast
next
  assume b: "dateKey date < dateKey (h_date (hd HALVING_DATES))"
  then show "getBlockReward date = 50" by (rule getBlockReward_before_first)
  then show "getBlockReward date = h_reward (hd HALVING_DATES)"
    by (simp add: HALVING_DATES_def)
next
  show "getBlockReward (mkDate 2024 4 18) = 625 / 100"
    using getBlockReward_boundary by simp
  show "getBlockReward (mkDate 2024 4 19) = 3125 / 1000"
    using getBlockReward_boundary by simp
qed

theorem C7_block_reward_witness:
  "getBlockReward (mkDate 2021 6 1) = 625 / 100 \<and> getBlockReward (mkDate 2008 12 1) = 50"
proof -
  let ?h = "\<lparr>h_date = mkDate 2020 5 11, h_reward = 625 / 100\<rparr>"
  have hin: "?h \<in> set HALVING_DATES" by (simp add: HALVING_DATES_def)
  have le: "dateKey (h_date ?h) \<le> dateKey (mkDate 2021 6 1)"
    by (simp add: mkDate_def dateKey_def)
  have mx: "\<forall>h' \<in> set HALVING_DATES.
              dateKey (h_date h') \<le> dateKey (mkDate 2021 6 1) \<longrightarrow>
              dateKey (h_date h') \<le> dateKey (h_date ?h)"
    by (simp add: HALVING_DATES_def mkDate_def dateKey_def)
  have before: "dateKey (mkDate 2008 12 1) < dateKey (h_date (hd HALVING_DATES))"
    by (simp add: HALVING_DATES_def mkDate_def dateKey_def)
  have "getBlockReward (mkDate 2021 6 1) = h_reward ?h"
    using C7_block_reward_latest_entry [of "mkDate 2021 6 1"] hin le mx by blast
  moreover have "getBlockReward (mkDate 2008 12 1) = 50"
    using C7_block_reward_latest_entry [of "mkDate 2008 12 1"] before by blast
  ultimately show ?thesis by simp
qed

section \<open>Properties of the failure model\<close>

text \<open>
  C2. The specification asks for less than 5 percent failed at 80 percent of the lifespan
  and more than 20 percent at 95 percent of it. With shape 10 and scale 0.98 the
  curve gives more than 10 percent at 48 of 60 months; at 57 of 60 months it
  gives more than 20 percent.
\<close>

theorem C2_failure_rate_at_80_percent:
  "1 / 10 < calculateCumulativeFailureRate 48 60 \<and> 20 / 100 < calculateCumulativeFailureRate 57 60"
proof
  let ?x = "((48 / 60) / (98 / 100)) ^ 10 :: real"
  have x: "(2 / 17 :: real) < ?x" by (simp add: power_divide)
  have "1 + ?x \<le> exp ?x" by (rule exp_ge_add_one_self)
  then have "19 / 17 < exp ?x" using x by linarith
  then have "exp (- ?x) < 17 / 19"
    by (simp add: exp_minus field_simps)
  then show "1 / 10 < calculateCumulativeFailureRate 48 60"
    by (simp add: calculateCumulativeFailureRate_def FAILURE_SCALE_def FAILURE_SHAPE_def Let_def min_def)
next
  let ?y = "((57 / 60) / (98 / 100)) ^ 10 :: real"
  have y: "(4 / 15 :: real) < ?y" by (simp add: power_divide)
  have "1 + ?y \<le> exp ?y" by (rule exp_ge_add_one_self)
  then have "19 / 15 < exp ?y" using y by linarith
  then have "exp (- ?y) < 15 / 19"
    by (simp add: exp_minus field_simps)
  then show "20 / 100 < calculateCumulativeFailureRate 57 60"
    by (simp add: calculateCumulativeFailureRate_def FAILURE_SCALE_def FAILURE_SHAPE_def Let_def min_def)
qed

section \<open>Properties of rounding\<close>

text \<open>
  The rounding moves a number by at most the fraction \<open>2 ^ -53\<close> of its size,
  keeps its sign, and leaves the whole numbers below \<open>2 ^ 53\<close> as they are. A
  number \<open>x\<close> with \<open>2 ^ 52 \<le> x * 2 ^ n < 2 ^ 53\<close> is rounded by rounding
  \<open>x * 2 ^ n\<close> to a whole number, which is how the roundings of the examples
  are evaluated.
\<close>

lemma roundHalfEven_error: "\<bar>of_int (roundHalfEven y) - y\<bar> \<le> 1 / 2"
proof -
  have "of_int \<lfloor>y\<rfloor> \<le> y" "y < of_int \<lfloor>y\<rfloor> + 1" by linarith+
  then show ?thesis by (auto simp: roundHalfEven_def Let_def)
qed

lemma roundHalfEven_of_int: "roundHalfEven (of_int k) = k"
  by (simp add: roundHalfEven_def)

lemma roundHalfEven_nonneg: "0 \<le> y \<Longrightarrow> 0 \<le> roundHalfEven y"
  by (auto simp: roundHalfEven_def Let_def)

lemma powr_floor_log_le:
  assumes "0 < a"
  shows "2 powr (of_int \<lfloor>log 2 a\<rfloor>) \<le> a"
proof -
  have "of_int \<lfloor>log 2 a\<rfloor> \<le> log 2 a" by linarith
  then have "2 powr (of_int \<lfloor>log 2 a\<rfloor>) \<le> 2 powr (log 2 a)" by (simp add: powr_mono)
  then show ?thesis using assms by simp
qed

lemma roundDouble_abs:
  assumes "x \<noteq> 0"
  shows "\<bar>roundDouble x - x\<bar> \<le> \<bar>x\<bar> / 2 ^ 53"
proof -
  let ?a = "\<bar>x\<bar>"
  let ?e = "\<lfloor>log 2 ?a\<rfloor>"
  let ?u = "2 powr (of_int ?e - 52) :: real"
  let ?r = "roundHalfEven (?a / ?u)"
  have a: "0 < ?a" using assms by simp
  have u: "0 < ?u" by simp
  have rd: "roundDouble x = sgn x * of_int ?r * ?u"
    using assms by (simp add: roundDouble_def Let_def)
  have x: "x = sgn x * ?a" by (simp add: sgn_mult_abs)
  have "roundDouble x - x = sgn x * (of_int ?r * ?u - ?a)"
    unfolding rd using x by (simp add: algebra_simps)
  then have "\<bar>roundDouble x - x\<bar> = \<bar>of_int ?r * ?u - ?a\<bar>"
    using assms by (simp add: abs_mult abs_sgn_eq)
  also have "of_int ?r * ?u - ?a = (of_int ?r - ?a / ?u) * ?u"
    using u by (simp add: field_simps)
  also have "\<bar>(of_int ?r - ?a / ?u) * ?u\<bar> = \<bar>of_int ?r - ?a / ?u\<bar> * ?u"
    using u by (simp add: abs_mult)
  also have "\<dots> \<le> (1 / 2) * ?u"
    using roundHalfEven_error[of "?a / ?u"] u by (intro mult_right_mono) simp_all
  also have "(1 / 2) * ?u \<le> ?a / 2 ^ 53"
  proof -
    have "?u = 2 powr (of_int ?e) / 2 ^ 52"
      by (simp add: powr_diff)
    moreover have "2 powr (of_int ?e) \<le> ?a" using a by (rule powr_floor_log_le)
    ultimately show ?thesis by (simp add: field_simps)
  qed
  finally show ?thesis .
qed

lemma roundDouble_zero: "roundDouble 0 = 0"
  by (simp add: roundDouble_def)

lemma roundDouble_error: "\<bar>roundDouble x - x\<bar> \<le> \<bar>x\<bar> / 2 ^ 53"
proof (cases "x = 0")
  case True
  then show ?thesis by (simp add: roundDouble_zero)
next
  case False
  then show ?thesis by (rule roundDouble_abs)
qed

lemma roundDouble_upper:
  assumes "0 \<le> x"
  shows "roundDouble x \<le> x * (1 + 1 / 2 ^ 53)"
proof -
  have "roundDouble x - x \<le> \<bar>x\<bar> / 2 ^ 53" using roundDouble_error[of x] by linarith
  then have "roundDouble x \<le> x + x / 2 ^ 53" using assms by simp
  also have "\<dots> = x * (1 + 1 / 2 ^ 53)" by (simp add: algebra_simps)
  finally show ?thesis .
qed

lemma roundDouble_nonneg:
  assumes "0 \<le> x"
  shows "0 \<le> roundDouble x"
proof -
  have "x / 2 ^ 53 \<le> x" using assms by (simp add: field_simps)
  moreover have "x - roundDouble x \<le> \<bar>x\<bar> / 2 ^ 53" using roundDouble_error[of x] by linarith
  ultimately show ?thesis using assms by simp
qed

lemma roundDouble_pos_imp:
  assumes "0 < roundDouble x"
  shows "0 < x"
proof (rule ccontr)
  assume "\<not> 0 < x"
  then have x: "x \<le> 0" by simp
  then have "\<bar>x\<bar> / 2 ^ 53 \<le> \<bar>x\<bar>" by (simp add: field_simps)
  moreover have "roundDouble x - x \<le> \<bar>x\<bar> / 2 ^ 53" using roundDouble_error[of x] by linarith
  ultimately have "roundDouble x \<le> 0" using x by simp
  then show False using assms by simp
qed

lemma floor_log2_eq:
  assumes "2 ^ 52 \<le> x * 2 ^ n" and "x * 2 ^ n < 2 ^ 53"
  shows "\<lfloor>log 2 x\<rfloor> = 52 - int n"
proof -
  have p: "0 < x * 2 ^ n" using assms(1) by (smt (verit) zero_less_power)
  then have x: "0 < x" by (simp add: zero_less_mult_iff)
  have l: "log 2 (x * 2 ^ n) = log 2 x + real n"
    using x by (simp add: log_mult log_nat_power)
  have "52 \<le> log 2 (x * 2 ^ n)"
    using assms(1) p by (simp add: le_log_iff powr_numeral)
  moreover have "log 2 (x * 2 ^ n) < 53"
    using assms(2) p by (simp add: log_less_iff powr_numeral)
  ultimately have "of_int (52 - int n) \<le> log 2 x" "log 2 x < of_int (52 - int n) + 1"
    using l by simp_all
  then show ?thesis by (rule floor_unique)
qed

lemma roundDouble_eval:
  assumes "2 ^ 52 \<le> x * 2 ^ n" and "x * 2 ^ n < 2 ^ 53"
  shows "roundDouble x = of_int (roundHalfEven (x * 2 ^ n)) / 2 ^ n"
proof -
  have p: "0 < x * 2 ^ n" using assms(1) by (smt (verit) zero_less_power)
  then have x: "0 < x" by (simp add: zero_less_mult_iff)
  have e: "\<lfloor>log 2 \<bar>x\<bar>\<rfloor> = 52 - int n" using floor_log2_eq[OF assms] x by simp
  have u: "2 powr (of_int (52 - int n) - 52) = 1 / (2 ^ n :: real)"
    by (simp add: powr_minus powr_realpow field_simps)
  show ?thesis using x unfolding roundDouble_def Let_def e u by simp
qed

lemma roundDouble_of_int:
  assumes "0 < k" and "k < 2 ^ 53"
  shows "roundDouble (of_int k) = of_int k"
proof -
  let ?e = "\<lfloor>log 2 (of_int k)\<rfloor>"
  have kr: "0 < (of_int k :: real)" using assms(1) by simp
  have "(of_int k :: real) < 2 ^ 53" using assms(2) by (metis of_int_less_iff of_int_numeral of_int_power)
  then have "log 2 (of_int k) < 53" using kr by (simp add: log_less_iff powr_numeral)
  then have e: "?e \<le> 52" by linarith
  define n where "n = nat (52 - ?e)"
  have n: "of_int ?e - 52 = - real n" using e by (simp add: n_def)
  have u: "2 powr (of_int ?e - 52) = 1 / (2 ^ n :: real)"
    unfolding n by (simp add: powr_minus powr_realpow field_simps)
  have "of_int k * (2 ^ n :: real) = of_int (k * 2 ^ n)" by simp
  then have r: "roundHalfEven (of_int k * (2 ^ n :: real)) = k * 2 ^ n"
    by (simp only: roundHalfEven_of_int)
  show ?thesis using kr unfolding roundDouble_def Let_def
    by (simp add: u r)
qed

lemma roundDouble_numeral:
  "(numeral w :: int) < 2 ^ 53 \<Longrightarrow> roundDouble (numeral w) = numeral w"
  using roundDouble_of_int[of "numeral w"] by simp

lemma roundDouble_one: "roundDouble 1 = 1"
  using roundDouble_of_int[of 1] by simp

text \<open>
  The arithmetic of one allocation, for any rounding \<open>fl\<close> that enlarges by at
  most the factor \<open>c\<close> and keeps the sign: \<open>k\<close> units that fit the rounded
  remaining power leave the rounded used power below the available power times
  \<open>c ^ 6\<close>.
\<close>

lemma rounded_step_bound:
  fixes fl :: "real \<Rightarrow> real" and c used avail pw M :: real and k :: int
  assumes up: "\<And>x. 0 \<le> x \<Longrightarrow> fl x \<le> x * c"
    and nn: "\<And>x. 0 \<le> x \<Longrightarrow> 0 \<le> fl x"
    and pos: "\<And>x. 0 < fl x \<Longrightarrow> 0 < x"
    and c1: "1 \<le> c" and pw: "0 < pw" and M: "0 < M" and u0: "0 \<le> used" and k1: "0 < k"
    and kq: "real_of_int k \<le> fl (fl (fl (avail - used) * M) / pw)"
  shows "fl (used + fl (fl (real_of_int k * pw) / M)) \<le> avail * c ^ 6"
    and "0 \<le> fl (used + fl (fl (real_of_int k * pw) / M))"
proof -
  let ?d = "avail - used"
  let ?rem = "fl ?d"
  let ?A = "fl (?rem * M)"
  let ?q = "fl (?A / pw)"
  let ?B = "fl (real_of_int k * pw)"
  let ?add = "fl (?B / M)"
  have c0: "0 < c" using c1 by simp
  have kr: "0 < real_of_int k" using k1 by simp
  have q0: "0 < ?q" using kq kr by linarith
  then have "0 < ?A / pw" by (rule pos)
  then have A0: "0 < ?A" using pw by (simp add: zero_less_divide_iff)
  then have "0 < ?rem * M" by (rule pos)
  then have rem0: "0 < ?rem" using M by (simp add: zero_less_mult_iff)
  then have d0: "0 < ?d" by (rule pos)
  have r1: "?rem \<le> ?d * c" using d0 by (intro up) simp
  have "?A \<le> ?rem * M * c" using rem0 M by (intro up) simp
  also have "\<dots> \<le> (?d * c) * M * c" using r1 M c0 by (intro mult_right_mono) simp_all
  finally have A1: "?A \<le> ?d * M * c ^ 2" by (simp add: power2_eq_square algebra_simps)
  have "?q \<le> ?A / pw * c" using A0 pw by (intro up) simp
  then have "real_of_int k \<le> ?A / pw * c" using kq by linarith
  then have "real_of_int k * pw \<le> ?A * c" using pw by (simp add: field_simps)
  also have "\<dots> \<le> (?d * M * c ^ 2) * c" using A1 c0 by (intro mult_right_mono) simp_all
  finally have k2: "real_of_int k * pw \<le> ?d * M * c ^ 3" by (simp add: power3_eq_cube power2_eq_square algebra_simps)
  have kp0: "0 \<le> real_of_int k * pw" using kr pw by simp
  have B0: "0 \<le> ?B" using kp0 by (rule nn)
  have "?B \<le> real_of_int k * pw * c" using kp0 by (rule up)
  also have "\<dots> \<le> (?d * M * c ^ 3) * c" using k2 c0 by (intro mult_right_mono) simp_all
  finally have B1: "?B \<le> ?d * M * c ^ 4" by (simp add: power_eq_if algebra_simps)
  have BM0: "0 \<le> ?B / M" using B0 M by simp
  have add0: "0 \<le> ?add" using BM0 by (rule nn)
  have "?add \<le> ?B / M * c" using BM0 by (rule up)
  also have "\<dots> \<le> (?d * M * c ^ 4) / M * c" using B1 c0 M by (intro mult_right_mono divide_right_mono) simp_all
  also have "\<dots> = ?d * (c ^ 4 * c)" using M by simp
  also have "\<dots> = ?d * c ^ 5" by (simp add: power_eq_if)
  finally have add1: "?add \<le> ?d * c ^ 5" .
  have s0: "0 \<le> used + ?add" using u0 add0 by simp
  then show "0 \<le> fl (used + ?add)" by (rule nn)
  have c5: "1 \<le> c ^ 5" using c1 by (rule one_le_power)
  then have "used * 1 \<le> used * c ^ 5" using u0 by (intro mult_left_mono) simp_all
  then have "used + ?add \<le> used * c ^ 5 + ?d * c ^ 5" using add1 by simp
  also have "\<dots> = avail * c ^ 5" by (simp add: algebra_simps)
  finally have s1: "used + ?add \<le> avail * c ^ 5" .
  have "fl (used + ?add) \<le> (used + ?add) * c" using s0 by (rule up)
  also have "\<dots> \<le> (avail * c ^ 5) * c" using s1 c0 by (intro mult_right_mono) simp_all
  also have "\<dots> = avail * c ^ 6" by (simp add: power_eq_if algebra_simps)
  finally show "fl (used + ?add) \<le> avail * c ^ 6" .
qed


section \<open>Example evaluations\<close>

lemmas ex_defs = exModelA_def exModelB_def exFleetA_def exFleetB_def exFleetLate_def exCapex_def
  exOpex_def exTranche1_def exTranche2_def exSite1_def exSite2_def exAssignments_def exCtx_def
  exMonth_def mkDate_def

lemmas date_defs = dateKey_def isAfter_def isBefore_def compareAsc_def isLeapYear_def
  daysInMonth_def carryDate_def differenceInCalendarMonths_def isLastDayOfMonth_def
  differenceInMonths_def

lemma ex_statuses:
  "calculateFleetStatuses exMonth exCtx =
     [\<lparr>fs_fleetId = ''A'', fs_totalMiners = 1000, fs_failedMiners = 0, fs_activeMiners = 1000\<rparr>,
      \<lparr>fs_fleetId = ''B'', fs_totalMiners = 1000, fs_failedMiners = 0, fs_activeMiners = 1000\<rparr>,
      \<lparr>fs_fleetId = ''L'', fs_totalMiners = 500, fs_failedMiners = 0, fs_activeMiners = 0\<rparr>]"
  by (simp add: calculateFleetStatuses_def calculateFleetStatus_def fleetTotalMiners_def
      calculateCumulativeFailureRate_def ex_defs date_defs Let_def)

lemma ex_tranches:
  "buildTrancheStatuses exMonth exCtx =
     [\<lparr>ts_siteId = ''S1'', ts_trancheId = ''T1'', ts_availablePowerMW = 3,
       ts_allocatedMiners = 0, ts_powerUsedMW = 0, ts_hashrateThs = 0\<rparr>]"
  by (simp add: buildTrancheStatuses_def siteTrancheStatuses_def initialTrancheStatus_def
      trancheAvailablePowerMW_def ex_defs date_defs Let_def)

lemma ex_run:
  "allocationRun exMonth exCtx (calculateFleetStatuses exMonth exCtx) =
     ([\<lparr>ts_siteId = ''S1'', ts_trancheId = ''T1'', ts_availablePowerMW = 3,
        ts_allocatedMiners = 1000, ts_powerUsedMW = 3, ts_hashrateThs = 200000\<rparr>],
      [''B'' \<mapsto> 1000])"
  unfolding ex_statuses allocationRun_def ex_tranches
  by (simp add: sortTrancheStatuses_def allocateTranche_def allocateAssignment_def
      minersToAllocateOf_def trancheUptime_def allTranches_def exCtx_def exSite1_def exSite2_def
      exTranche1_def exTranche2_def exModelA_def exModelB_def exFleetA_def exFleetB_def
      exFleetLate_def exAssignments_def Let_def roundDouble_numeral roundDouble_zero)

lemma ex_run_by_priority:
  "allocateFleetsToTranches exMonth (exCtx\<lparr>fleetAssignments := sort_key a_priority exAssignments\<rparr>)
      (calculateFleetStatuses exMonth exCtx) =
     [\<lparr>ts_siteId = ''S1'', ts_trancheId = ''T1'', ts_availablePowerMW = 3,
       ts_allocatedMiners = 1000, ts_powerUsedMW = 3, ts_hashrateThs = 100000\<rparr>]"
proof -
  have b: "buildTrancheStatuses exMonth (exCtx\<lparr>fleetAssignments := sort_key a_priority exAssignments\<rparr>) =
           buildTrancheStatuses exMonth exCtx"
    by (simp add: buildTrancheStatuses_def)
  show ?thesis
    unfolding ex_statuses allocationRun_def allocateFleetsToTranches_def b ex_tranches
    by (simp add: sortTrancheStatuses_def allocateTranche_def allocateAssignment_def
        minersToAllocateOf_def trancheUptime_def allTranches_def exCtx_def exSite1_def exSite2_def
        exTranche1_def exTranche2_def exModelA_def exModelB_def exFleetA_def exFleetB_def
        exFleetLate_def exAssignments_def Let_def roundDouble_numeral roundDouble_zero)
qed

text \<open>
  The roundings met in the small project: 0.12, 0.003 and 0.117 are not doubles,
  and the sum of the doubles for 0.003 and 0.117 rounds to the double above the
  one for 0.12.
\<close>

lemma rd_12: "roundDouble (3 / 25) = 1080863910568919 / 9007199254740992"
  by (subst roundDouble_eval[where n = 56]) (simp_all add: roundHalfEven_def)

lemma rd_12_fix:
  "roundDouble (1080863910568919 / 9007199254740992) = 1080863910568919 / 9007199254740992"
  by (subst roundDouble_eval[where n = 56]) (simp_all add: roundHalfEven_def)

lemma rd_12_scaled: "roundDouble (16888498602639359375 / 140737488355328) = 120000"
  by (subst roundDouble_eval[where n = 36]) (simp_all add: roundHalfEven_def)

lemma rd_003: "roundDouble (3 / 1000) = 3458764513820541 / 1152921504606846976"
  by (subst roundDouble_eval[where n = 61]) (simp_all add: roundHalfEven_def)

lemma rd_003_fix:
  "roundDouble (3458764513820541 / 1152921504606846976) = 3458764513820541 / 1152921504606846976"
  by (subst roundDouble_eval[where n = 61]) (simp_all add: roundHalfEven_def)

lemma rd_rem:
  "roundDouble (134891816039001091 / 1152921504606846976) = 131730289100587 / 1125899906842624"
  by (subst roundDouble_eval[where n = 56]) (simp_all add: roundHalfEven_def)

lemma rd_rem_scaled: "roundDouble (2058285767196671875 / 17592186044416) = 117000"
  by (subst roundDouble_eval[where n = 36]) (simp_all add: roundHalfEven_def)

lemma rd_117: "roundDouble (117 / 1000) = 8430738502437569 / 72057594037927936"
  by (subst roundDouble_eval[where n = 56]) (simp_all add: roundHalfEven_def)

lemma rd_used:
  "roundDouble (138350580552821645 / 1152921504606846976) = 8646911284551353 / 72057594037927936"
  by (subst roundDouble_eval[where n = 56]) (simp_all add: roundHalfEven_def)

lemmas rd_facts = rd_12 rd_12_fix rd_12_scaled rd_003 rd_003_fix rd_rem rd_rem_scaled rd_117 rd_used

lemmas small_defs = exFleetX_def exFleetY_def exTrancheSmall_def exCtxSmall_def

lemma ex_small_statuses:
  "calculateFleetStatuses exMonth exCtxSmall =
     [\<lparr>fs_fleetId = ''X'', fs_totalMiners = 1, fs_failedMiners = 0, fs_activeMiners = 1\<rparr>,
      \<lparr>fs_fleetId = ''Y'', fs_totalMiners = 100000, fs_failedMiners = 0, fs_activeMiners = 100000\<rparr>]"
  by (simp add: calculateFleetStatuses_def calculateFleetStatus_def fleetTotalMiners_def
      calculateCumulativeFailureRate_def small_defs ex_defs date_defs Let_def)

lemma ex_small_tranches:
  "buildTrancheStatuses exMonth exCtxSmall =
     [\<lparr>ts_siteId = ''S1'', ts_trancheId = ''T1'',
       ts_availablePowerMW = 1080863910568919 / 9007199254740992,
       ts_allocatedMiners = 0, ts_powerUsedMW = 0, ts_hashrateThs = 0\<rparr>]"
  by (simp add: buildTrancheStatuses_def siteTrancheStatuses_def initialTrancheStatus_def
      trancheAvailablePowerMW_def small_defs ex_defs date_defs Let_def rd_12)

lemma ex_small_run:
  "allocationRun exMonth exCtxSmall (calculateFleetStatuses exMonth exCtxSmall) =
     ([\<lparr>ts_siteId = ''S1'', ts_trancheId = ''T1'',
        ts_availablePowerMW = 1080863910568919 / 9007199254740992,
        ts_allocatedMiners = 40,
        ts_powerUsedMW = 8646911284551353 / 72057594037927936,
        ts_hashrateThs = 4000\<rparr>],
      [''X'' \<mapsto> 1, ''Y'' \<mapsto> 39])"
  unfolding ex_small_statuses allocationRun_def ex_small_tranches
  by (simp add: sortTrancheStatuses_def allocateTranche_def allocateAssignment_def
      minersToAllocateOf_def trancheUptime_def allTranches_def small_defs exCtx_def exSite1_def
      exSite2_def exTranche1_def exTranche2_def exModelA_def exModelB_def exFleetA_def
      exFleetB_def exFleetLate_def exAssignments_def Let_def roundDouble_numeral roundDouble_zero
      rd_facts)

lemma ex_spare: "spareMiners (calculateMonthMetrics exMonth exCtx) = 1500"
  using ex_run
  by (simp add: calculateMonthMetrics_def Let_def allocateFleetsToTranches_def ex_statuses
      reduceSum_def)

lemma ex_models_nonzero: "\<forall>m \<in> set (asicModels exCtx). m_powerW m \<noteq> 0"
  by (simp add: exCtx_def exModelA_def exModelB_def)

section \<open>Properties of fleet aging\<close>

lemma foldl_add_sum_list:
  "foldl (\<lambda>sum x. sum + f x) a xs = a + sum_list (map f xs)"
  for a :: "'b::monoid_add"
  by (induction xs arbitrary: a) (simp_all add: add.assoc)

lemma reduceSum_sum_list: "reduceSum f xs = sum_list (map f xs)"
  by (simp add: reduceSum_def foldl_add_sum_list)

lemma floor_ceiling_split:
  "\<lfloor>real_of_int t * (95 / 100)\<rfloor> + \<lceil>real_of_int t * (5 / 100)\<rceil> = t"
proof -
  have "real_of_int t * (5 / 100) = real_of_int t - real_of_int t * (95 / 100)" by simp
  then have "\<lceil>real_of_int t * (5 / 100)\<rceil> = \<lceil>real_of_int t - real_of_int t * (95 / 100)\<rceil>" by simp
  also have "\<dots> = - \<lfloor>real_of_int t * (95 / 100) - real_of_int t\<rfloor>"
    by (simp add: ceiling_def)
  also have "\<dots> = - (\<lfloor>real_of_int t * (95 / 100)\<rfloor> - t)"
    by (simp only: floor_diff_of_int)
  finally show ?thesis by simp
qed

lemma status_after_origination:
  assumes "isAfter mth (f_originationDate fleet)"
  shows "fs_totalMiners (calculateFleetStatus mth ctx fleet) =
         fs_failedMiners (calculateFleetStatus mth ctx fleet) +
         fs_activeMiners (calculateFleetStatus mth ctx fleet)"
  using assms floor_ceiling_split
  by (simp add: calculateFleetStatus_def Let_def split: option.splits)

lemma status_not_after_origination:
  assumes "\<not> isAfter mth (f_originationDate fleet)"
  shows "fs_failedMiners (calculateFleetStatus mth ctx fleet) = 0 \<and>
         fs_activeMiners (calculateFleetStatus mth ctx fleet) = 0"
  using assms
  by (simp add: calculateFleetStatus_def Let_def split: option.splits)

lemma status_balance:
  "fs_totalMiners (calculateFleetStatus mth ctx fleet) - fs_failedMiners (calculateFleetStatus mth ctx fleet) =
   fs_activeMiners (calculateFleetStatus mth ctx fleet) +
   (if isAfter mth (f_originationDate fleet) then 0 else fs_totalMiners (calculateFleetStatus mth ctx fleet))"
  using status_after_origination[of mth fleet ctx] status_not_after_origination[of mth fleet ctx]
  by (cases "isAfter mth (f_originationDate fleet)") simp_all

lemma sum_list_filter_if:
  "sum_list (map f (filter P xs)) = sum_list (map (\<lambda>x. if P x then f x else 0) xs)"
  for f :: "'a \<Rightarrow> int"
  by (induction xs) simp_all

lemma isBefore_not_isAfter: "isBefore a b \<Longrightarrow> \<not> isAfter a b"
  by (simp add: isBefore_def isAfter_def)




section \<open>Properties of the spare-miner figure\<close>

lemma spare_formula:
  "spareMiners (calculateMonthMetrics mth ctx) =
     reduceSum fs_activeMiners (calculateFleetStatuses mth ctx)
     - reduceSum ts_allocatedMiners (allocateFleetsToTranches mth ctx (calculateFleetStatuses mth ctx))
     + sum_list (map (\<lambda>f. fs_totalMiners (calculateFleetStatus mth ctx f))
         (filter (\<lambda>f. \<not> isAfter mth (f_originationDate f)) (fleets ctx)))"
proof -
  let ?st = "calculateFleetStatus mth ctx"
  let ?late = "\<lambda>f. if \<not> isAfter mth (f_originationDate f) then fs_totalMiners (?st f) else 0"
  let ?fs = "fleets ctx"
  have each: "fs_totalMiners (?st f) = fs_failedMiners (?st f) + (fs_activeMiners (?st f) + ?late f)" for f
    using status_balance[of mth ctx f] by (cases "isAfter mth (f_originationDate f)") simp_all
  have "sum_list (map (\<lambda>f. fs_totalMiners (?st f)) ?fs) =
        sum_list (map (\<lambda>f. fs_failedMiners (?st f) + (fs_activeMiners (?st f) + ?late f)) ?fs)"
    using each by (intro arg_cong[where f = sum_list] map_cong) auto
  then have key: "sum_list (map (\<lambda>f. fs_totalMiners (?st f)) ?fs) =
        sum_list (map (\<lambda>f. fs_failedMiners (?st f)) ?fs) +
        (sum_list (map (\<lambda>f. fs_activeMiners (?st f)) ?fs) + sum_list (map ?late ?fs))"
    by (simp only: sum_list_addf)
  have sp: "spareMiners (calculateMonthMetrics mth ctx) =
        sum_list (map (\<lambda>f. fs_totalMiners (?st f)) ?fs) - sum_list (map (\<lambda>f. fs_failedMiners (?st f)) ?fs)
        - reduceSum ts_allocatedMiners (allocateFleetsToTranches mth ctx (calculateFleetStatuses mth ctx))"
    by (simp add: calculateMonthMetrics_def Let_def reduceSum_sum_list calculateFleetStatuses_def comp_def)
  have act: "reduceSum fs_activeMiners (calculateFleetStatuses mth ctx) =
        sum_list (map (\<lambda>f. fs_activeMiners (?st f)) ?fs)"
    by (simp add: reduceSum_sum_list calculateFleetStatuses_def comp_def)
  have late: "sum_list (map (\<lambda>f. fs_totalMiners (?st f))
         (filter (\<lambda>f. \<not> isAfter mth (f_originationDate f)) ?fs)) = sum_list (map ?late ?fs)"
    by (simp only: sum_list_filter_if)
  show ?thesis unfolding sp act late using key by linarith
qed

text \<open>
  C4 (as the code has it). The spare-miner figure of a month is the sum of the
  total units of all fleets, minus the sum of their failed units, minus the
  units allocated over all tranches. For hardware models with nonzero power
  draw, in a month in which every fleet's origination date lies strictly before
  or strictly after the month, it is the sum of the active units of all fleets,
  minus the units allocated over all tranches, plus the total units of the
  fleets that originate after the month.
\<close>

theorem C4_spare_miners_formula:
  assumes "\<forall>m \<in> set (asicModels ctx). m_powerW m \<noteq> 0"
  shows "spareMiners (calculateMonthMetrics mth ctx) =
           reduceSum fs_totalMiners (calculateFleetStatuses mth ctx)
           - reduceSum fs_failedMiners (calculateFleetStatuses mth ctx)
           - reduceSum ts_allocatedMiners
               (allocateFleetsToTranches mth ctx (calculateFleetStatuses mth ctx)) \<and>
         ((\<forall>f \<in> set (fleets ctx).
             isAfter mth (f_originationDate f) \<or> isBefore mth (f_originationDate f)) \<longrightarrow>
          spareMiners (calculateMonthMetrics mth ctx) =
            reduceSum fs_activeMiners (calculateFleetStatuses mth ctx)
            - reduceSum ts_allocatedMiners
                (allocateFleetsToTranches mth ctx (calculateFleetStatuses mth ctx))
            + notYetOriginatedUnits mth ctx)"
proof (intro conjI impI)
  show "spareMiners (calculateMonthMetrics mth ctx) =
           reduceSum fs_totalMiners (calculateFleetStatuses mth ctx)
           - reduceSum fs_failedMiners (calculateFleetStatuses mth ctx)
           - reduceSum ts_allocatedMiners
               (allocateFleetsToTranches mth ctx (calculateFleetStatuses mth ctx))"
    by (simp add: calculateMonthMetrics_def Let_def)
next
  assume sep: "\<forall>f \<in> set (fleets ctx).
                 isAfter mth (f_originationDate f) \<or> isBefore mth (f_originationDate f)"
  have "filter (\<lambda>f. \<not> isAfter mth (f_originationDate f)) (fleets ctx) =
        filter (\<lambda>f. isBefore mth (f_originationDate f)) (fleets ctx)"
    using sep isBefore_not_isAfter by (intro filter_cong) auto
  then show "spareMiners (calculateMonthMetrics mth ctx) =
            reduceSum fs_activeMiners (calculateFleetStatuses mth ctx)
            - reduceSum ts_allocatedMiners
                (allocateFleetsToTranches mth ctx (calculateFleetStatuses mth ctx))
            + notYetOriginatedUnits mth ctx"
    unfolding notYetOriginatedUnits_def using spare_formula[of mth ctx] by simp
qed

theorem C4_spare_miners_witness:
  "spareMiners (calculateMonthMetrics exMonth exCtx) =
     reduceSum fs_activeMiners (calculateFleetStatuses exMonth exCtx)
     - reduceSum ts_allocatedMiners
         (allocateFleetsToTranches exMonth exCtx (calculateFleetStatuses exMonth exCtx))
     + notYetOriginatedUnits exMonth exCtx \<and>
   notYetOriginatedUnits exMonth exCtx = 500"
proof -
  have n: "notYetOriginatedUnits exMonth exCtx = 500"
    by (simp add: notYetOriginatedUnits_def calculateFleetStatus_def fleetTotalMiners_def
        ex_defs date_defs Let_def)
  have sep: "\<forall>f \<in> set (fleets exCtx).
               isAfter exMonth (f_originationDate f) \<or> isBefore exMonth (f_originationDate f)"
    by (simp add: ex_defs date_defs)
  from C4_spare_miners_formula [OF ex_models_nonzero, of exMonth] sep
  have "spareMiners (calculateMonthMetrics exMonth exCtx) =
     reduceSum fs_activeMiners (calculateFleetStatuses exMonth exCtx)
     - reduceSum ts_allocatedMiners
         (allocateFleetsToTranches exMonth exCtx (calculateFleetStatuses exMonth exCtx))
     + notYetOriginatedUnits exMonth exCtx"
    by blast
  with n show ?thesis by simp
qed

text \<open>
  Active minus allocated is not the figure while a fleet has not originated: in January 2024 the
  example has 2000 active units, 1000 of them allocated, and 1500 spare miners.
\<close>

theorem C4_spare_miners_counterexample:
  "spareMiners (calculateMonthMetrics exMonth exCtx) \<noteq>
     reduceSum fs_activeMiners (calculateFleetStatuses exMonth exCtx)
     - reduceSum ts_allocatedMiners
         (allocateFleetsToTranches exMonth exCtx (calculateFleetStatuses exMonth exCtx))"
  unfolding ex_spare allocateFleetsToTranches_def ex_run
  by (simp add: ex_statuses reduceSum_def)

section \<open>Properties of the power allocator\<close>

lemma differenceInMonths_nonneg:
  assumes "\<not> isBefore l r"
  shows "0 \<le> differenceInMonths l r"
proof -
  have sg: "compareAsc l r = 0 \<or> compareAsc l r = 1"
    using assms by (simp add: compareAsc_def isBefore_def)
  show ?thesis
  proof (cases "\<bar>differenceInCalendarMonths l r\<bar> < 1")
    case True
    then show ?thesis by (simp add: differenceInMonths_def Let_def)
  next
    case False
    then have "1 \<le> \<bar>differenceInCalendarMonths l r\<bar>" by linarith
    then have "0 \<le> \<bar>differenceInCalendarMonths l r\<bar> - (if b then 1 else 0)" for b by simp
    then show ?thesis using sg False
      by (auto simp add: differenceInMonths_def Let_def)
  qed
qed

lemma trancheAvailablePowerMW_nonneg:
  assumes "\<not> isBefore mth (tr_startDate tr)" and "0 \<le> tr_powerMW tr"
  shows "0 \<le> trancheAvailablePowerMW mth tr"
proof -
  have m: "0 \<le> real_of_int (differenceInMonths mth (tr_startDate tr))"
    using differenceInMonths_nonneg[OF assms(1)] by simp
  have "0 \<le> roundDouble (tr_powerMW tr *
          roundDouble ((real_of_int (differenceInMonths mth (tr_startDate tr)) + 1) / tr_rampUpMonths tr))"
    if "0 < tr_rampUpMonths tr"
  proof -
    have "0 \<le> (real_of_int (differenceInMonths mth (tr_startDate tr)) + 1) / tr_rampUpMonths tr"
      using m that by simp
    then have "0 \<le> roundDouble
        ((real_of_int (differenceInMonths mth (tr_startDate tr)) + 1) / tr_rampUpMonths tr)"
      by (rule roundDouble_nonneg)
    then have "0 \<le> tr_powerMW tr * roundDouble
        ((real_of_int (differenceInMonths mth (tr_startDate tr)) + 1) / tr_rampUpMonths tr)"
      using assms(2) by (rule mult_nonneg_nonneg[rotated])
    then show ?thesis by (rule roundDouble_nonneg)
  qed
  moreover have "0 \<le> roundDouble (tr_powerMW tr * 1)"
    using assms(2) by (intro roundDouble_nonneg) simp
  ultimately show ?thesis using assms(2)
    by (simp add: trancheAvailablePowerMW_def Let_def)
qed

lemma minersToAllocateOf_le:
  "0 < minersToAllocateOf avail rem pw \<Longrightarrow> minersToAllocateOf avail rem pw \<le> avail"
  by (simp add: minersToAllocateOf_def split: if_splits)

text \<open>
  One allocation on a tranche whose used power is not negative: the new used
  power is not negative and stays below the available power times the sixth
  power of \<open>1 + 2 ^ -53\<close>, one factor for each rounding on the way.
\<close>

lemma minersToAllocateOf_power:
  assumes k: "0 < minersToAllocateOf availM (roundDouble (avail - used)) pw"
    and pw: "0 < pw" and u0: "0 \<le> used"
  shows "roundDouble (used + roundDouble (roundDouble
            (real_of_int (minersToAllocateOf availM (roundDouble (avail - used)) pw) * pw) / 1000000))
           \<le> avail * (1 + 1 / 2 ^ 53) ^ 6"
    and "0 \<le> roundDouble (used + roundDouble (roundDouble
            (real_of_int (minersToAllocateOf availM (roundDouble (avail - used)) pw) * pw) / 1000000))"
proof -
  let ?k = "minersToAllocateOf availM (roundDouble (avail - used)) pw"
  have "?k \<le> \<lfloor>roundDouble (roundDouble (roundDouble (avail - used) * 1000000) / pw)\<rfloor>"
    using pw by (simp add: minersToAllocateOf_def)
  then have kq: "real_of_int ?k \<le> roundDouble (roundDouble (roundDouble (avail - used) * 1000000) / pw)"
    by (meson le_floor_iff)
  have c1: "(1::real) \<le> 1 + 1 / 2 ^ 53" by simp
  have M: "(0::real) < 1000000" by simp
  show "roundDouble (used + roundDouble (roundDouble (real_of_int ?k * pw) / 1000000))
          \<le> avail * (1 + 1 / 2 ^ 53) ^ 6"
    by (rule rounded_step_bound(1)[where fl = roundDouble and M = 1000000,
          OF roundDouble_upper roundDouble_nonneg roundDouble_pos_imp c1 pw M u0 k kq])
  show "0 \<le> roundDouble (used + roundDouble (roundDouble (real_of_int ?k * pw) / 1000000))"
    by (rule rounded_step_bound(2)[where fl = roundDouble and M = 1000000 and c = "1 + 1 / 2 ^ 53",
          OF roundDouble_upper roundDouble_nonneg roundDouble_pos_imp c1 pw M u0 k kq])
qed

lemma allocateAssignment_cases:
  "allocateAssignment ctx fss (tr, al) a = (tr, al) \<or>
   (\<exists>fleetStatus fleet model.
      find (\<lambda>f. fs_fleetId f = a_fleetId a) fss = Some fleetStatus \<and>
      find (\<lambda>f. f_id f = a_fleetId a) (fleets ctx) = Some fleet \<and>
      find (\<lambda>m. m_id m = f_modelId fleet) (asicModels ctx) = Some model \<and>
      0 < minersToAllocateOf (fs_activeMiners fleetStatus - unitsAllocated al (f_id fleet))
            (roundDouble (ts_availablePowerMW tr - ts_powerUsedMW tr)) (m_powerW model) \<and>
      allocateAssignment ctx fss (tr, al) a =
        takeUnits ctx tr al fleet model
          (minersToAllocateOf (fs_activeMiners fleetStatus - unitsAllocated al (f_id fleet))
            (roundDouble (ts_availablePowerMW tr - ts_powerUsedMW tr)) (m_powerW model)))"
  by (simp add: allocateAssignment_def takeUnits_def unitsAllocated_def Let_def split: option.splits)

lemma allocateAssignment_inv:
  assumes "trancheOk (fst st)" and "allocOk fleetStatuses (snd st)"
    and models: "\<forall>m \<in> set (asicModels ctx). 0 < m_powerW m"
  shows "trancheOk (fst (allocateAssignment ctx fleetStatuses st a)) \<and>
         allocOk fleetStatuses (snd (allocateAssignment ctx fleetStatuses st a)) \<and>
         ts_siteId (fst (allocateAssignment ctx fleetStatuses st a)) = ts_siteId (fst st) \<and>
         ts_trancheId (fst (allocateAssignment ctx fleetStatuses st a)) = ts_trancheId (fst st) \<and>
         ts_availablePowerMW (fst (allocateAssignment ctx fleetStatuses st a)) = ts_availablePowerMW (fst st)"
proof -
  obtain tr al where st: "st = (tr, al)" by (cases st)
  have trok: "0 \<le> ts_allocatedMiners tr" "0 \<le> ts_powerUsedMW tr"
    using assms(1) st by (simp_all add: trancheOk_def)
  have alok: "allocOk fleetStatuses al" using assms(2) st by simp
  from allocateAssignment_cases[of ctx fleetStatuses tr al a]
  show ?thesis
  proof (elim disjE exE conjE)
    assume "allocateAssignment ctx fleetStatuses (tr, al) a = (tr, al)"
    then show ?thesis using assms st by simp
  next
    fix fleetStatus :: MonthlyFleetStatus and fleet :: ASICFleet and model :: ASICModel
    let ?already = "unitsAllocated al (f_id fleet)"
    let ?avail = "fs_activeMiners fleetStatus - ?already"
    let ?rem = "roundDouble (ts_availablePowerMW tr - ts_powerUsedMW tr)"
    let ?k = "minersToAllocateOf ?avail ?rem (m_powerW model)"
    assume fsd: "find (\<lambda>f. fs_fleetId f = a_fleetId a) fleetStatuses = Some fleetStatus"
      and fl: "find (\<lambda>f. f_id f = a_fleetId a) (fleets ctx) = Some fleet"
      and md: "find (\<lambda>m. m_id m = f_modelId fleet) (asicModels ctx) = Some model"
      and kpos: "0 < ?k"
      and res: "allocateAssignment ctx fleetStatuses (tr, al) a = takeUnits ctx tr al fleet model ?k"
    have fid: "f_id fleet = a_fleetId a" using fl by (auto simp: find_Some_iff)
    have "model \<in> set (asicModels ctx)" using md by (auto simp: find_Some_iff)
    then have pw: "0 < m_powerW model" using models by blast
    have already0: "0 \<le> ?already"
    proof (cases "al (f_id fleet)")
      case None
      then show ?thesis by (simp add: unitsAllocated_def)
    next
      case (Some n)
      then have "0 < n" using alok unfolding allocOk_def by blast
      then show ?thesis using Some by (simp add: unitsAllocated_def)
    qed
    have kle: "?k \<le> ?avail" using kpos by (rule minersToAllocateOf_le)
    note bound = minersToAllocateOf_power[OF kpos pw trok(2)]
    have t1: "trancheOk (fst (takeUnits ctx tr al fleet model ?k))"
      using trok kpos bound by (simp add: trancheOk_def takeUnits_def)
    have t2: "allocOk fleetStatuses (snd (takeUnits ctx tr al fleet model ?k))"
      unfolding allocOk_def
    proof (intro allI impI)
      fix fid' v
      assume v: "snd (takeUnits ctx tr al fleet model ?k) fid' = Some v"
      show "0 < v \<and> (\<exists>fs. find (\<lambda>f. fs_fleetId f = fid') fleetStatuses = Some fs \<and> v \<le> fs_activeMiners fs)"
      proof (cases "fid' = f_id fleet")
        case True
        then have "v = ?already + ?k" using v by (simp add: takeUnits_def)
        then show ?thesis using True fid fsd kle kpos already0 by auto
      next
        case False
        then have "al fid' = Some v" using v by (simp add: takeUnits_def)
        then show ?thesis using alok by (simp add: allocOk_def)
      qed
    qed
    have t3: "ts_siteId (fst (takeUnits ctx tr al fleet model ?k)) = ts_siteId tr"
      "ts_trancheId (fst (takeUnits ctx tr al fleet model ?k)) = ts_trancheId tr"
      "ts_availablePowerMW (fst (takeUnits ctx tr al fleet model ?k)) = ts_availablePowerMW tr"
      by (simp_all add: takeUnits_def)
    show ?thesis unfolding st res using t1 t2 t3 by simp
  qed
qed

lemma allocateAssignments_inv:
  assumes "trancheOk (fst st)" and "allocOk fleetStatuses (snd st)"
    and models: "\<forall>m \<in> set (asicModels ctx). 0 < m_powerW m"
  shows "trancheOk (fst (foldl (allocateAssignment ctx fleetStatuses) st as)) \<and>
         allocOk fleetStatuses (snd (foldl (allocateAssignment ctx fleetStatuses) st as)) \<and>
         ts_siteId (fst (foldl (allocateAssignment ctx fleetStatuses) st as)) = ts_siteId (fst st) \<and>
         ts_trancheId (fst (foldl (allocateAssignment ctx fleetStatuses) st as)) = ts_trancheId (fst st) \<and>
         ts_availablePowerMW (fst (foldl (allocateAssignment ctx fleetStatuses) st as)) = ts_availablePowerMW (fst st)"
  using assms
proof (induction as arbitrary: st)
  case Nil
  then show ?case by simp
next
  case (Cons a as)
  from allocateAssignment_inv[OF Cons.prems(1,2) models, of a]
  have s: "trancheOk (fst (allocateAssignment ctx fleetStatuses st a))"
    "allocOk fleetStatuses (snd (allocateAssignment ctx fleetStatuses st a))"
    and e: "ts_siteId (fst (allocateAssignment ctx fleetStatuses st a)) = ts_siteId (fst st)"
    "ts_trancheId (fst (allocateAssignment ctx fleetStatuses st a)) = ts_trancheId (fst st)"
    "ts_availablePowerMW (fst (allocateAssignment ctx fleetStatuses st a)) = ts_availablePowerMW (fst st)"
    by simp_all
  from Cons.IH[OF s models] e show ?case by simp
qed

lemma allocateTranche_inv:
  assumes "trancheOk tr" and "allocOk fleetStatuses al"
    and models: "\<forall>m \<in> set (asicModels ctx). 0 < m_powerW m"
  shows "trancheOk (fst (allocateTranche ctx fleetStatuses tr al)) \<and>
         allocOk fleetStatuses (snd (allocateTranche ctx fleetStatuses tr al)) \<and>
         ts_siteId (fst (allocateTranche ctx fleetStatuses tr al)) = ts_siteId tr \<and>
         ts_trancheId (fst (allocateTranche ctx fleetStatuses tr al)) = ts_trancheId tr \<and>
         ts_availablePowerMW (fst (allocateTranche ctx fleetStatuses tr al)) = ts_availablePowerMW tr"
  using allocateAssignments_inv[of "(tr, al)" fleetStatuses ctx] assms
  by (simp add: allocateTranche_def Let_def)

lemma allocateLoop_inv:
  assumes "\<forall>t \<in> set ts. trancheOk t" and "allocOk fleetStatuses al"
    and models: "\<forall>m \<in> set (asicModels ctx). 0 < m_powerW m"
  shows "(\<forall>t \<in> set (fst (allocateLoop ctx fleetStatuses ts al)). trancheOk t) \<and>
         allocOk fleetStatuses (snd (allocateLoop ctx fleetStatuses ts al)) \<and>
         map ts_siteId (fst (allocateLoop ctx fleetStatuses ts al)) = map ts_siteId ts \<and>
         map ts_trancheId (fst (allocateLoop ctx fleetStatuses ts al)) = map ts_trancheId ts \<and>
         map ts_availablePowerMW (fst (allocateLoop ctx fleetStatuses ts al)) = map ts_availablePowerMW ts"
  using assms
proof (induction ts arbitrary: al)
  case Nil
  then show ?case by simp
next
  case (Cons t ts)
  have t: "trancheOk t" and rest: "\<forall>t \<in> set ts. trancheOk t" using Cons.prems(1) by simp_all
  note step = allocateTranche_inv[OF t Cons.prems(2) models]
  from step have al': "allocOk fleetStatuses (snd (allocateTranche ctx fleetStatuses t al))" by simp
  from Cons.IH[OF rest al' models] step show ?case by (simp add: Let_def)
qed


lemma find_Some_mem: "find P xs = Some x \<Longrightarrow> x \<in> set xs \<and> P x"
  by (auto simp: find_Some_iff)

lemma fleetTotalMiners_nonneg:
  assumes "0 < m_powerW model"
    and "\<forall>n. f_quantityMiners fleet = Some n \<longrightarrow> 0 \<le> n"
    and "\<forall>q. f_quantityMW fleet = Some q \<longrightarrow> 0 \<le> q"
  shows "0 \<le> fleetTotalMiners fleet model"
  using assms by (auto simp add: fleetTotalMiners_def split: option.splits)

lemma status_active_nonneg:
  assumes "\<forall>m \<in> set (asicModels ctx). 0 < m_powerW m"
    and "\<forall>n. f_quantityMiners fleet = Some n \<longrightarrow> 0 \<le> n"
    and "\<forall>q. f_quantityMW fleet = Some q \<longrightarrow> 0 \<le> q"
  shows "0 \<le> fs_activeMiners (calculateFleetStatus mth ctx fleet)"
proof (cases "find (\<lambda>m. m_id m = f_modelId fleet) (asicModels ctx)")
  case None
  then show ?thesis by (simp add: calculateFleetStatus_def)
next
  case (Some model)
  then have "model \<in> set (asicModels ctx)" by (simp add: find_Some_mem)
  then have "0 < m_powerW model" using assms(1) by blast
  then have t: "0 \<le> fleetTotalMiners fleet model"
    using assms(2,3) by (rule fleetTotalMiners_nonneg)
  then have "0 \<le> real_of_int (fleetTotalMiners fleet model) * (5 / 100)" by simp
  then have "0 \<le> \<lceil>real_of_int (fleetTotalMiners fleet model) * (5 / 100)\<rceil>"
    by (simp only: zero_le_ceiling)
  then show ?thesis using Some t
    by (simp add: calculateFleetStatus_def Let_def)
qed

lemma buildTrancheStatuses_ok:
  assumes "\<forall>s \<in> set (sites ctx). \<forall>tr \<in> set (site_tranches s). 0 \<le> tr_powerMW tr"
    and "t \<in> set (buildTrancheStatuses mth ctx)"
  shows "trancheOk t"
proof -
  from assms(2) obtain s tr where s: "s \<in> set (sites ctx)" and tr: "tr \<in> set (site_tranches s)"
    and nb: "\<not> isBefore mth (tr_startDate tr)" and t: "t = initialTrancheStatus mth s tr"
    by (auto simp: buildTrancheStatuses_def siteTrancheStatuses_def)
  have "0 \<le> tr_powerMW tr" using assms(1) s tr by blast
  then have "0 \<le> trancheAvailablePowerMW mth tr" using nb trancheAvailablePowerMW_nonneg by blast
  then have "0 \<le> trancheAvailablePowerMW mth tr * (1 + 1 / 2 ^ 53) ^ 6"
    by (intro mult_nonneg_nonneg) simp_all
  then show ?thesis by (simp add: t trancheOk_def initialTrancheStatus_def)
qed

lemma allocationRun_inv:
  assumes "\<forall>s \<in> set (sites ctx). \<forall>tr \<in> set (site_tranches s). 0 \<le> tr_powerMW tr"
    and models: "\<forall>m \<in> set (asicModels ctx). 0 < m_powerW m"
  shows "(\<forall>t \<in> set (fst (allocationRun mth ctx fleetStatuses)). trancheOk t) \<and>
         allocOk fleetStatuses (snd (allocationRun mth ctx fleetStatuses))"
proof -
  have a: "\<forall>t \<in> set (sortTrancheStatuses ctx (buildTrancheStatuses mth ctx)). trancheOk t"
    using buildTrancheStatuses_ok[OF assms(1)] by (simp add: sortTrancheStatuses_def)
  have b: "allocOk fleetStatuses Map.empty" by (simp add: allocOk_def)
  from allocateLoop_inv[OF a b models] show ?thesis by (simp add: allocationRun_def)
qed

lemma sum_list_fun_upd:
  fixes f :: "'a \<Rightarrow> int"
  assumes "distinct L" and "x \<in> set L"
  shows "sum_list (map (f(x := v)) L) = sum_list (map f L) - f x + v"
  using assms
proof (induction L)
  case Nil
  then show ?case by simp
next
  case (Cons y L)
  show ?case
  proof (cases "y = x")
    case True
    then have "x \<notin> set L" using Cons.prems(1) by simp
    then have "map (f(x := v)) L = map f L" by (intro map_cong) auto
    then have "sum_list (map (f(x := v)) L) = sum_list (map f L)" by (rule arg_cong)
    then show ?thesis using True by (simp del: fun_upd_apply add: fun_upd_same)
  next
    case False
    then have "x \<in> set L" using Cons.prems(2) by simp
    then show ?thesis using Cons.IH Cons.prems(1) False by simp
  qed
qed

lemma unitsAllocated_upd:
  "unitsAllocated (al(k \<mapsto> v)) = (unitsAllocated al)(k := v)"
  by (rule ext) (simp add: unitsAllocated_def)

lemma allocateAssignment_total:
  "ts_allocatedMiners (fst (allocateAssignment ctx fss st a)) - ts_allocatedMiners (fst st) =
   unitsAllocatedToFleets ctx (snd (allocateAssignment ctx fss st a)) - unitsAllocatedToFleets ctx (snd st)"
proof -
  obtain tr al where st: "st = (tr, al)" by (cases st)
  from allocateAssignment_cases[of ctx fss tr al a]
  show ?thesis
  proof (elim disjE exE conjE)
    assume "allocateAssignment ctx fss (tr, al) a = (tr, al)"
    then show ?thesis unfolding st by simp
  next
    fix fleetStatus :: MonthlyFleetStatus and fleet :: ASICFleet and model :: ASICModel
    let ?k = "minersToAllocateOf (fs_activeMiners fleetStatus - unitsAllocated al (f_id fleet))
            (roundDouble (ts_availablePowerMW tr - ts_powerUsedMW tr)) (m_powerW model)"
    assume fl: "find (\<lambda>f. f_id f = a_fleetId a) (fleets ctx) = Some fleet"
      and res: "allocateAssignment ctx fss (tr, al) a = takeUnits ctx tr al fleet model ?k"
    have "fleet \<in> set (fleets ctx)" using fl by (simp add: find_Some_mem)
    then have mem: "f_id fleet \<in> set (fleetIds ctx)" by (simp add: fleetIds_def)
    have d: "distinct (fleetIds ctx)" by (simp add: fleetIds_def)
    have "unitsAllocatedToFleets ctx (al(f_id fleet \<mapsto> unitsAllocated al (f_id fleet) + ?k)) =
          unitsAllocatedToFleets ctx al + ?k"
      unfolding unitsAllocatedToFleets_def unitsAllocated_upd sum_list_fun_upd[OF d mem] by simp
    then show ?thesis unfolding st res by (simp add: takeUnits_def)
  qed
qed

lemma allocateAssignments_total:
  "ts_allocatedMiners (fst (foldl (allocateAssignment ctx fss) st as)) - ts_allocatedMiners (fst st) =
   unitsAllocatedToFleets ctx (snd (foldl (allocateAssignment ctx fss) st as)) - unitsAllocatedToFleets ctx (snd st)"
proof (induction as arbitrary: st)
  case Nil
  show ?case by simp
next
  case (Cons a as)
  show ?case using Cons.IH[of "allocateAssignment ctx fss st a"] allocateAssignment_total[of ctx fss st a]
    by simp
qed

lemma allocateLoop_total:
  "sum_list (map ts_allocatedMiners (fst (allocateLoop ctx fss ts al))) - sum_list (map ts_allocatedMiners ts) =
   unitsAllocatedToFleets ctx (snd (allocateLoop ctx fss ts al)) - unitsAllocatedToFleets ctx al"
proof (induction ts arbitrary: al)
  case Nil
  show ?case by simp
next
  case (Cons t ts)
  have s: "ts_allocatedMiners (fst (allocateTranche ctx fss t al)) - ts_allocatedMiners t =
        unitsAllocatedToFleets ctx (snd (allocateTranche ctx fss t al)) - unitsAllocatedToFleets ctx al"
    using allocateAssignments_total[of ctx fss "(t, al)"] by (simp add: allocateTranche_def Let_def)
  show ?case using Cons.IH[of "snd (allocateTranche ctx fss t al)"] s
    by (simp add: Let_def)
qed

lemma sum_list_all_zero:
  "\<forall>x \<in> set xs. f x = 0 \<Longrightarrow> sum_list (map f xs) = 0"
  for f :: "'a \<Rightarrow> int"
  by (induction xs) simp_all

lemma allocationRun_total:
  "reduceSum ts_allocatedMiners (allocateFleetsToTranches mth ctx fss) =
   unitsAllocatedToFleets ctx (snd (allocationRun mth ctx fss))"
proof -
  let ?ts = "sortTrancheStatuses ctx (buildTrancheStatuses mth ctx)"
  have "\<forall>t \<in> set ?ts. ts_allocatedMiners t = 0"
    by (auto simp: sortTrancheStatuses_def buildTrancheStatuses_def siteTrancheStatuses_def
        initialTrancheStatus_def)
  then have z: "sum_list (map ts_allocatedMiners ?ts) = 0" by (rule sum_list_all_zero)
  have e: "unitsAllocatedToFleets ctx Map.empty = 0"
    unfolding unitsAllocatedToFleets_def
    by (rule sum_list_all_zero) (simp add: unitsAllocated_def)
  from allocateLoop_total[of ctx fss ?ts Map.empty] z e show ?thesis
    by (simp add: allocateFleetsToTranches_def allocationRun_def reduceSum_sum_list)
qed


text \<open>
  C5 (as the code has it). For hardware models with positive power draw, fleets
  of non-negative size and tranches of non-negative power: in every month, the
  units of a fleet allocated over all tranches (the engine's counter for the
  fleet's id) do not exceed the active units of the fleet's status, no allocated
  count is negative, and no tranche uses more power than its
  ramp-up-adjusted available power times \<open>(1 + 2 ^ -53) ^ 6\<close>, the margin of the
  six roundings between the remaining power and the new used power. The
  counters of all fleets add up to the units allocated over all tranches.
\<close>

theorem C5_allocation_conservation:
  assumes models: "\<forall>m \<in> set (asicModels ctx). 0 < m_powerW m"
    and quantities: "\<forall>f \<in> set (fleets ctx).
        (\<forall>n. f_quantityMiners f = Some n \<longrightarrow> 0 \<le> n) \<and> (\<forall>q. f_quantityMW f = Some q \<longrightarrow> 0 \<le> q)"
    and power: "\<forall>s \<in> set (sites ctx). \<forall>tr \<in> set (site_tranches s). 0 \<le> tr_powerMW tr"
  shows "(\<forall>fleetId fleetStatus.
            find (\<lambda>f. fs_fleetId f = fleetId) (calculateFleetStatuses mth ctx) = Some fleetStatus \<longrightarrow>
            unitsAllocated (snd (allocationRun mth ctx (calculateFleetStatuses mth ctx))) fleetId
              \<le> fs_activeMiners fleetStatus) \<and>
         (\<forall>fleetId. 0 \<le> unitsAllocated (snd (allocationRun mth ctx (calculateFleetStatuses mth ctx))) fleetId) \<and>
         (\<forall>t \<in> set (allocateFleetsToTranches mth ctx (calculateFleetStatuses mth ctx)).
            0 \<le> ts_allocatedMiners t \<and>
            ts_powerUsedMW t \<le> ts_availablePowerMW t * (1 + 1 / 2 ^ 53) ^ 6) \<and>
         reduceSum ts_allocatedMiners
             (allocateFleetsToTranches mth ctx (calculateFleetStatuses mth ctx)) =
           unitsAllocatedToFleets ctx (snd (allocationRun mth ctx (calculateFleetStatuses mth ctx)))"
proof -
  let ?fss = "calculateFleetStatuses mth ctx"
  let ?run = "allocationRun mth ctx ?fss"
  from allocationRun_inv[OF power models, of mth ?fss]
  have tr: "\<forall>t \<in> set (fst ?run). trancheOk t" and al: "allocOk ?fss (snd ?run)" by simp_all
  have act: "0 \<le> fs_activeMiners fs" if "fs \<in> set ?fss" for fs
  proof -
    from that obtain f where f: "f \<in> set (fleets ctx)" and fs: "fs = calculateFleetStatus mth ctx f"
      by (auto simp: calculateFleetStatuses_def)
    from quantities f have "\<forall>n. f_quantityMiners f = Some n \<longrightarrow> 0 \<le> n"
      and "\<forall>q. f_quantityMW f = Some q \<longrightarrow> 0 \<le> q" by blast+
    with models show ?thesis unfolding fs by (rule status_active_nonneg)
  qed
  have c1: "unitsAllocated (snd ?run) fleetId \<le> fs_activeMiners fleetStatus"
    if fd: "find (\<lambda>f. fs_fleetId f = fleetId) ?fss = Some fleetStatus" for fleetId fleetStatus
  proof (cases "snd ?run fleetId")
    case None
    have "fleetStatus \<in> set ?fss" using fd by (simp add: find_Some_mem)
    then show ?thesis using None act by (simp add: unitsAllocated_def)
  next
    case (Some v)
    then obtain fs where "find (\<lambda>f. fs_fleetId f = fleetId) ?fss = Some fs" and "v \<le> fs_activeMiners fs"
      using al unfolding allocOk_def by blast
    then show ?thesis using fd Some by (simp add: unitsAllocated_def)
  qed
  have c2: "0 \<le> unitsAllocated (snd ?run) fleetId" for fleetId
  proof (cases "snd ?run fleetId")
    case None
    then show ?thesis by (simp add: unitsAllocated_def)
  next
    case (Some v)
    then have "0 < v" using al unfolding allocOk_def by blast
    then show ?thesis using Some by (simp add: unitsAllocated_def)
  qed
  have c3: "\<forall>t \<in> set (allocateFleetsToTranches mth ctx ?fss).
              0 \<le> ts_allocatedMiners t \<and>
              ts_powerUsedMW t \<le> ts_availablePowerMW t * (1 + 1 / 2 ^ 53) ^ 6"
    using tr by (simp add: allocateFleetsToTranches_def trancheOk_def)
  have c4: "reduceSum ts_allocatedMiners (allocateFleetsToTranches mth ctx ?fss) =
              unitsAllocatedToFleets ctx (snd ?run)"
    by (rule allocationRun_total)
  from c1 c2 c3 c4 show ?thesis by blast
qed

text \<open>
  January 2024 in the example, where the 3 MW tranche is filled exactly, and in
  the small project, where the used power ends one unit in the last place above
  the available 0.12 MW.
\<close>

theorem C5_allocation_conservation_witness:
  "unitsAllocated (snd (allocationRun exMonth exCtx (calculateFleetStatuses exMonth exCtx))) ''B''
     \<le> 1000 \<and>
   0 \<le> unitsAllocated (snd (allocationRun exMonth exCtx (calculateFleetStatuses exMonth exCtx))) ''A'' \<and>
   list_all (\<lambda>t. 0 \<le> ts_allocatedMiners t \<and>
               ts_powerUsedMW t \<le> ts_availablePowerMW t * (1 + 1 / 2 ^ 53) ^ 6)
     (allocateFleetsToTranches exMonth exCtx (calculateFleetStatuses exMonth exCtx)) \<and>
   list_all (\<lambda>t. 0 \<le> ts_allocatedMiners t \<and>
               ts_powerUsedMW t \<le> ts_availablePowerMW t * (1 + 1 / 2 ^ 53) ^ 6)
     (allocateFleetsToTranches exMonth exCtxSmall (calculateFleetStatuses exMonth exCtxSmall))"
proof -
  have m': "\<forall>m \<in> set (asicModels exCtxSmall). 0 < m_powerW m"
    by (simp add: exCtxSmall_def exCtx_def exModelA_def exModelB_def)
  have q': "\<forall>f \<in> set (fleets exCtxSmall).
             (\<forall>n. f_quantityMiners f = Some n \<longrightarrow> 0 \<le> n) \<and> (\<forall>q. f_quantityMW f = Some q \<longrightarrow> 0 \<le> q)"
    by (simp add: exCtxSmall_def exFleetX_def exFleetY_def)
  have p': "\<forall>s \<in> set (sites exCtxSmall). \<forall>tr \<in> set (site_tranches s). 0 \<le> tr_powerMW tr"
    by (simp add: exCtxSmall_def exTrancheSmall_def rd_12)
  from C5_allocation_conservation [OF m' q' p', of exMonth]
  have small: "list_all (\<lambda>t. 0 \<le> ts_allocatedMiners t \<and>
               ts_powerUsedMW t \<le> ts_availablePowerMW t * (1 + 1 / 2 ^ 53) ^ 6)
     (allocateFleetsToTranches exMonth exCtxSmall (calculateFleetStatuses exMonth exCtxSmall))"
    unfolding list_all_iff by blast
  have m: "\<forall>m \<in> set (asicModels exCtx). 0 < m_powerW m"
    by (simp add: exCtx_def exModelA_def exModelB_def)
  have q: "\<forall>f \<in> set (fleets exCtx).
             (\<forall>n. f_quantityMiners f = Some n \<longrightarrow> 0 \<le> n) \<and> (\<forall>q. f_quantityMW f = Some q \<longrightarrow> 0 \<le> q)"
    by (simp add: exCtx_def exFleetA_def exFleetB_def exFleetLate_def)
  have p: "\<forall>s \<in> set (sites exCtx). \<forall>tr \<in> set (site_tranches s). 0 \<le> tr_powerMW tr"
    by (simp add: exCtx_def exSite1_def exSite2_def exTranche1_def exTranche2_def)
  have f: "find (\<lambda>f. fs_fleetId f = ''B'') (calculateFleetStatuses exMonth exCtx) =
             Some \<lparr>fs_fleetId = ''B'', fs_totalMiners = 1000, fs_failedMiners = 0, fs_activeMiners = 1000\<rparr>"
    by (simp add: ex_statuses)
  note c = C5_allocation_conservation [OF m q p, of exMonth]
  from c f have "unitsAllocated (snd (allocationRun exMonth exCtx (calculateFleetStatuses exMonth exCtx))) ''B''
      \<le> fs_activeMiners \<lparr>fs_fleetId = ''B'', fs_totalMiners = 1000, fs_failedMiners = 0, fs_activeMiners = 1000\<rparr>"
    by blast
  moreover from c have "0 \<le> unitsAllocated (snd (allocationRun exMonth exCtx (calculateFleetStatuses exMonth exCtx))) ''A''"
    by blast
  moreover from c have "list_all (\<lambda>t. 0 \<le> ts_allocatedMiners t \<and>
               ts_powerUsedMW t \<le> ts_availablePowerMW t * (1 + 1 / 2 ^ 53) ^ 6)
     (allocateFleetsToTranches exMonth exCtx (calculateFleetStatuses exMonth exCtx))"
    unfolding list_all_iff by blast
  ultimately show ?thesis using small by simp
qed

text \<open>
  Without the margin the power bound fails. On the 0.12 MW tranche of the small
  project the engine places the unit of fleet X, then 39 units of fleet Y: the
  remaining power 0.12 - 0.003 rounds to a double whose product with 1000000
  rounds to 117000, for 39 units of 3000 W, and the sum 0.003 + 0.117 rounds to
  0.12000000000000001, the double next above the available 0.12.
\<close>

theorem C5_power_bound_counterexample:
  "allocateFleetsToTranches exMonth exCtxSmall (calculateFleetStatuses exMonth exCtxSmall) =
     [\<lparr>ts_siteId = ''S1'', ts_trancheId = ''T1'',
       ts_availablePowerMW = 1080863910568919 / 9007199254740992,
       ts_allocatedMiners = 40,
       ts_powerUsedMW = 8646911284551353 / 72057594037927936,
       ts_hashrateThs = 4000\<rparr>] \<and>
   list_ex (\<lambda>t. ts_availablePowerMW t < ts_powerUsedMW t)
     (allocateFleetsToTranches exMonth exCtxSmall (calculateFleetStatuses exMonth exCtxSmall))"
  by (simp add: allocateFleetsToTranches_def ex_small_run)

lemma prio_fields:
  "sites (withPriorities p ctx) = sites ctx"
  "fleets (withPriorities p ctx) = fleets ctx"
  "asicModels (withPriorities p ctx) = asicModels ctx"
  by (simp_all add: withPriorities_def)

lemma prio_allTranches: "allTranches (withPriorities p ctx) = allTranches ctx"
  unfolding allTranches_def prio_fields by (rule refl)

lemma prio_trancheUptime: "trancheUptime (withPriorities p ctx) = trancheUptime ctx"
  unfolding trancheUptime_def prio_allTranches by (rule refl)

lemma prio_allocateAssignment_ctx:
  "allocateAssignment (withPriorities p ctx) = allocateAssignment ctx"
  unfolding allocateAssignment_def prio_fields prio_trancheUptime by (rule refl)

lemma prio_allocateAssignment_arg:
  "allocateAssignment ctx fss st (a\<lparr>a_priority := q\<rparr>) = allocateAssignment ctx fss st a"
proof -
  have f: "a_fleetId (a\<lparr>a_priority := q\<rparr>) = a_fleetId a" by simp
  show ?thesis unfolding allocateAssignment_def f by (rule refl)
qed

lemma foldl_map_same:
  assumes "\<And>st a. step st (u a) = step st a"
  shows "foldl step st (map u as) = foldl step st as"
  using assms by (induction as arbitrary: st) simp_all

lemma prio_allocateTranche:
  "allocateTranche (withPriorities p ctx) fss tr al = allocateTranche ctx fss tr al"
proof -
  have "filter (\<lambda>a. a_siteId a = ts_siteId tr) (fleetAssignments (withPriorities p ctx)) =
        map (\<lambda>a. a\<lparr>a_priority := p a\<rparr>) (filter (\<lambda>a. a_siteId a = ts_siteId tr) (fleetAssignments ctx))"
    by (simp add: withPriorities_def filter_map comp_def)
  then show ?thesis
    unfolding allocateTranche_def Let_def prio_allocateAssignment_ctx
    by (simp add: foldl_map_same prio_allocateAssignment_arg)
qed

lemma prio_allocateLoop:
  "allocateLoop (withPriorities p ctx) fss ts al = allocateLoop ctx fss ts al"
  by (induction ts arbitrary: al) (simp_all add: prio_allocateTranche)

lemma prio_allocationRun:
  "allocationRun mth (withPriorities p ctx) fss = allocationRun mth ctx fss"
proof -
  have "buildTrancheStatuses mth (withPriorities p ctx) = buildTrancheStatuses mth ctx"
    unfolding buildTrancheStatuses_def prio_fields by (rule refl)
  moreover have "sortTrancheStatuses (withPriorities p ctx) = sortTrancheStatuses ctx"
    unfolding sortTrancheStatuses_def trancheSortKey_def prio_allTranches by (rule refl)
  ultimately show ?thesis by (simp add: allocationRun_def prio_allocateLoop)
qed


text \<open>
  C1. The specification asks that the assignments of a tranche's site are served
  in ascending priority, whatever the order of the collection. The allocator
  serves them in the order of the collection and never reads the priority:
  changing the priorities changes nothing in the allocation. In the example,
  fleet B (priority 2, listed first) takes the whole 3 MW tranche with 1000
  units, and fleet A (priority 1) gets none. With the collection sorted by
  priority the tranche would carry fleet A instead (hashrate 100000 rather than
  200000).
\<close>

theorem C1_collection_order_not_priority:
  "allocationRun mth (withPriorities priorityOf ctx) fleetStatuses = allocationRun mth ctx fleetStatuses \<and>
   map a_priority (filter (\<lambda>a. a_siteId a = ''S1'') (fleetAssignments exCtx)) = [2, 1] \<and>
   unitsAllocated (snd (allocationRun exMonth exCtx (calculateFleetStatuses exMonth exCtx))) ''B'' = 1000 \<and>
   unitsAllocated (snd (allocationRun exMonth exCtx (calculateFleetStatuses exMonth exCtx))) ''A'' = 0 \<and>
   map ts_hashrateThs (allocateFleetsToTranches exMonth exCtx (calculateFleetStatuses exMonth exCtx))
     = [200000] \<and>
   map ts_hashrateThs
     (allocateFleetsToTranches exMonth (exCtx\<lparr>fleetAssignments := sort_key a_priority exAssignments\<rparr>)
        (calculateFleetStatuses exMonth exCtx)) = [100000]"
proof -
  have "map a_priority (filter (\<lambda>a. a_siteId a = ''S1'') (fleetAssignments exCtx)) = [2, 1]"
    by (simp add: exCtx_def exAssignments_def)
  moreover have
    "unitsAllocated (snd (allocationRun exMonth exCtx (calculateFleetStatuses exMonth exCtx))) ''B'' = 1000"
    "unitsAllocated (snd (allocationRun exMonth exCtx (calculateFleetStatuses exMonth exCtx))) ''A'' = 0"
    "map ts_hashrateThs (allocateFleetsToTranches exMonth exCtx (calculateFleetStatuses exMonth exCtx))
       = [200000]"
    unfolding allocateFleetsToTranches_def ex_run by (simp_all add: unitsAllocated_def)
  moreover have "map ts_hashrateThs
     (allocateFleetsToTranches exMonth (exCtx\<lparr>fleetAssignments := sort_key a_priority exAssignments\<rparr>)
        (calculateFleetStatuses exMonth exCtx)) = [100000]"
    unfolding ex_run_by_priority by simp
  ultimately show ?thesis using prio_allocationRun by simp
qed

section \<open>Properties of hardware depreciation\<close>








lemma calculateMinerDepreciation_sum:
  "calculateMinerDepreciation mth sid ctx =
     sum_list (map (assignmentDepreciation mth ctx)
       (filter (\<lambda>a. a_siteId a = sid) (fleetAssignments ctx)))"
  by (simp add: calculateMinerDepreciation_def Let_def foldl_add_sum_list)






lemma ex_assignment_depreciation:
  "assignmentDepreciation exMonth exCtx \<lparr>a_fleetId = ''A'', a_siteId = ''S1'', a_priority = 1\<rparr> = 100000 / 3"
  "assignmentDepreciation exMonth exCtx \<lparr>a_fleetId = ''A'', a_siteId = ''S2'', a_priority = 1\<rparr> = 100000 / 3"
  "assignmentDepreciation exMonth exCtx \<lparr>a_fleetId = ''B'', a_siteId = ''S1'', a_priority = 2\<rparr> = 50000"
  "assignmentDepreciation (mkDate 2026 1 1) exCtx \<lparr>a_fleetId = ''A'', a_siteId = ''S1'', a_priority = 1\<rparr> = 100000 / 3"
  "assignmentDepreciation (mkDate 2026 1 1) exCtx \<lparr>a_fleetId = ''A'', a_siteId = ''S2'', a_priority = 1\<rparr> = 100000 / 3"
  "assignmentDepreciation (mkDate 2026 1 1) exCtx \<lparr>a_fleetId = ''B'', a_siteId = ''S1'', a_priority = 2\<rparr> = 50000"
  by (simp_all add: assignmentDepreciation_def fleetTotalMiners_def ex_defs date_defs Let_def)





section \<open>Properties of EBITDA\<close>

lemma find_map_key:
  assumes "\<And>x. P (u x) = P x"
  shows "find P (map u xs) = map_option u (find P xs)"
  using assms by (induction xs) simp_all

lemma dep_fields:
  "fleets (withDepreciationInputs g h ctx) = fleets ctx"
  "fleetAssignments (withDepreciationInputs g h ctx) = fleetAssignments ctx"
  "teamMembers (withDepreciationInputs g h ctx) = teamMembers ctx"
  "teamProfiles (withDepreciationInputs g h ctx) = teamProfiles ctx"
  "monthlyData (withDepreciationInputs g h ctx) = monthlyData ctx"
  by (simp_all add: withDepreciationInputs_def)

lemma dep_find_model:
  "find (\<lambda>m. m_id m = x) (asicModels (withDepreciationInputs g h ctx)) =
     map_option (\<lambda>m. m\<lparr>m_pricePerTh := h m\<rparr>) (find (\<lambda>m. m_id m = x) (asicModels ctx))"
  by (simp add: withDepreciationInputs_def find_map_key)

lemma dep_allTranches:
  "allTranches (withDepreciationInputs g h ctx) =
     map (\<lambda>tr. tr\<lparr>tr_capex := g tr\<rparr>) (allTranches ctx)"
  by (simp add: withDepreciationInputs_def allTranches_def map_concat comp_def)

lemma dep_find_tranche:
  "find (\<lambda>tr. tr_id tr = x) (allTranches (withDepreciationInputs g h ctx)) =
     map_option (\<lambda>tr. tr\<lparr>tr_capex := g tr\<rparr>) (find (\<lambda>tr. tr_id tr = x) (allTranches ctx))"
  by (simp add: dep_allTranches find_map_key)

lemma dep_fleetTotalMiners:
  "fleetTotalMiners fleet (m\<lparr>m_pricePerTh := p\<rparr>) = fleetTotalMiners fleet m"
  by (simp add: fleetTotalMiners_def)

lemma dep_calculateFleetStatus:
  "calculateFleetStatus mth (withDepreciationInputs g h ctx) fleet = calculateFleetStatus mth ctx fleet"
  unfolding calculateFleetStatus_def dep_find_model
  by (cases "find (\<lambda>m. m_id m = f_modelId fleet) (asicModels ctx)")
     (simp_all add: dep_fleetTotalMiners)

lemma dep_calculateFleetStatuses:
  "calculateFleetStatuses mth (withDepreciationInputs g h ctx) = calculateFleetStatuses mth ctx"
  by (simp add: calculateFleetStatuses_def dep_fields dep_calculateFleetStatus)

lemma dep_trancheAvailablePowerMW:
  "trancheAvailablePowerMW mth (tr\<lparr>tr_capex := c\<rparr>) = trancheAvailablePowerMW mth tr"
  by (simp add: trancheAvailablePowerMW_def Let_def)

lemma dep_siteTrancheStatuses:
  "siteTrancheStatuses mth (s\<lparr>site_tranches := map (\<lambda>tr. tr\<lparr>tr_capex := g tr\<rparr>) (site_tranches s)\<rparr>) =
     siteTrancheStatuses mth s"
  by (simp add: siteTrancheStatuses_def filter_map comp_def initialTrancheStatus_def
      dep_trancheAvailablePowerMW)

lemma dep_buildTrancheStatuses:
  "buildTrancheStatuses mth (withDepreciationInputs g h ctx) = buildTrancheStatuses mth ctx"
  by (simp add: buildTrancheStatuses_def withDepreciationInputs_def comp_def dep_siteTrancheStatuses)

lemma dep_trancheSortKey:
  "trancheSortKey (withDepreciationInputs g h ctx) = trancheSortKey ctx"
proof
  fix t
  show "trancheSortKey (withDepreciationInputs g h ctx) t = trancheSortKey ctx t"
    unfolding trancheSortKey_def dep_find_tranche
    by (cases "find (\<lambda>tr. tr_id tr = ts_trancheId t) (allTranches ctx)") simp_all
qed

lemma dep_trancheUptime:
  "trancheUptime (withDepreciationInputs g h ctx) x = trancheUptime ctx x"
  unfolding trancheUptime_def dep_find_tranche
  by (cases "find (\<lambda>tr. tr_id tr = x) (allTranches ctx)") simp_all

lemma model_fields:
  "m_id (m\<lparr>m_pricePerTh := p\<rparr>) = m_id m"
  "m_powerW (m\<lparr>m_pricePerTh := p\<rparr>) = m_powerW m"
  "m_hashrateThS (m\<lparr>m_pricePerTh := p\<rparr>) = m_hashrateThS m"
  by simp_all

lemma dep_allocateAssignment:
  "allocateAssignment (withDepreciationInputs g h ctx) fss st a = allocateAssignment ctx fss st a"
  unfolding allocateAssignment_def dep_fields dep_find_model case_map_option comp_def model_fields
    dep_trancheUptime
  by (rule refl)

lemma dep_allocateTranche:
  "allocateTranche (withDepreciationInputs g h ctx) fss tr al = allocateTranche ctx fss tr al"
proof -
  have "allocateAssignment (withDepreciationInputs g h ctx) fss = allocateAssignment ctx fss"
    by (intro ext) (rule dep_allocateAssignment)
  then show ?thesis by (simp add: allocateTranche_def dep_fields)
qed

lemma dep_allocateLoop:
  "allocateLoop (withDepreciationInputs g h ctx) fss ts al = allocateLoop ctx fss ts al"
  by (induction ts arbitrary: al) (simp_all add: dep_allocateTranche)

lemma dep_allocateFleetsToTranches:
  "allocateFleetsToTranches mth (withDepreciationInputs g h ctx) fss = allocateFleetsToTranches mth ctx fss"
  by (simp add: allocateFleetsToTranches_def allocationRun_def dep_allocateLoop
      dep_buildTrancheStatuses sortTrancheStatuses_def dep_trancheSortKey)

lemma dep_calculateTeamCosts:
  "calculateTeamCosts mth (withDepreciationInputs g h ctx) = calculateTeamCosts mth ctx"
  unfolding calculateTeamCosts_def dep_fields by (rule refl)

lemma dep_economics:
  "btcPriceUSDOf mth (withDepreciationInputs g h ctx) = btcPriceUSDOf mth ctx"
  "globalHashrateEHOf mth (withDepreciationInputs g h ctx) = globalHashrateEHOf mth ctx"
  "txFeesPerBlockOf mth (withDepreciationInputs g h ctx) = txFeesPerBlockOf mth ctx"
  by (simp_all add: btcPriceUSDOf_def globalHashrateEHOf_def txFeesPerBlockOf_def economicData_def
      dep_fields)


lemma dep_siteMetricsOf:
  "map_option sm_btcMined
     (siteMetricsOf mth (withDepreciationInputs g h ctx) ts a b c d
        (s\<lparr>site_tranches := map (\<lambda>tr. tr\<lparr>tr_capex := g tr\<rparr>) (site_tranches s)\<rparr>)) =
   map_option sm_btcMined (siteMetricsOf mth ctx ts a b c d s)"
  "map_option sm_electricityCost
     (siteMetricsOf mth (withDepreciationInputs g h ctx) ts a b c d
        (s\<lparr>site_tranches := map (\<lambda>tr. tr\<lparr>tr_capex := g tr\<rparr>) (site_tranches s)\<rparr>)) =
   map_option sm_electricityCost (siteMetricsOf mth ctx ts a b c d s)"
  "map_option sm_opexCost
     (siteMetricsOf mth (withDepreciationInputs g h ctx) ts a b c d
        (s\<lparr>site_tranches := map (\<lambda>tr. tr\<lparr>tr_capex := g tr\<rparr>) (site_tranches s)\<rparr>)) =
   map_option sm_opexCost (siteMetricsOf mth ctx ts a b c d s)"
  "map_option sm_teamCost
     (siteMetricsOf mth (withDepreciationInputs g h ctx) ts a b c d
        (s\<lparr>site_tranches := map (\<lambda>tr. tr\<lparr>tr_capex := g tr\<rparr>) (site_tranches s)\<rparr>)) =
   map_option sm_teamCost (siteMetricsOf mth ctx ts a b c d s)"
  by (simp_all add: siteMetricsOf_def Let_def find_map_key comp_def
      dep_calculateTeamCosts cong: option.case_cong if_cong)

lemma map_filter_field_cong:
  assumes "\<And>s. map_option p (F' (u s)) = map_option p (F s)"
  shows "map p (List.map_filter F' (map u ss)) = map p (List.map_filter F ss)"
proof (induction ss)
  case Nil
  show ?case by simp
next
  case (Cons s ss)
  show ?case using Cons.IH assms[of s]
    by (cases "F s"; cases "F' (u s)") simp_all
qed

lemma siteMetrics_eq:
  "siteMetrics (calculateMonthMetrics mth ctx) =
     (let ts = allocateFleetsToTranches mth ctx (calculateFleetStatuses mth ctx);
          total = reduceSum ts_hashrateThs ts;
          frac = (if 0 < globalHashrateEHOf mth ctx * 1000000
                  then total / (globalHashrateEHOf mth ctx * 1000000) else 0)
      in List.map_filter
           (siteMetricsOf mth ctx ts total (frac * getBlockReward mth * BLOCKS_PER_MONTH)
              (frac * txFeesPerBlockOf mth ctx * BLOCKS_PER_MONTH) (btcPriceUSDOf mth ctx))
           (sites ctx))"
  by (simp add: calculateMonthMetrics_def Let_def)

lemma dep_siteMetrics:
  "map sm_btcMined (siteMetrics (calculateMonthMetrics mth (withDepreciationInputs g h ctx))) =
   map sm_btcMined (siteMetrics (calculateMonthMetrics mth ctx))"
  "map sm_electricityCost (siteMetrics (calculateMonthMetrics mth (withDepreciationInputs g h ctx))) =
   map sm_electricityCost (siteMetrics (calculateMonthMetrics mth ctx))"
  "map sm_opexCost (siteMetrics (calculateMonthMetrics mth (withDepreciationInputs g h ctx))) =
   map sm_opexCost (siteMetrics (calculateMonthMetrics mth ctx))"
  "map sm_teamCost (siteMetrics (calculateMonthMetrics mth (withDepreciationInputs g h ctx))) =
   map sm_teamCost (siteMetrics (calculateMonthMetrics mth ctx))"
proof -
  have st: "sites (withDepreciationInputs g h ctx) =
      map (\<lambda>s. s\<lparr>site_tranches := map (\<lambda>tr. tr\<lparr>tr_capex := g tr\<rparr>) (site_tranches s)\<rparr>) (sites ctx)"
    by (simp add: withDepreciationInputs_def)
  show "map sm_btcMined (siteMetrics (calculateMonthMetrics mth (withDepreciationInputs g h ctx))) =
        map sm_btcMined (siteMetrics (calculateMonthMetrics mth ctx))"
    unfolding siteMetrics_eq Let_def dep_calculateFleetStatuses dep_allocateFleetsToTranches
      dep_economics st
    by (rule map_filter_field_cong) (rule dep_siteMetricsOf)
  show "map sm_electricityCost (siteMetrics (calculateMonthMetrics mth (withDepreciationInputs g h ctx))) =
        map sm_electricityCost (siteMetrics (calculateMonthMetrics mth ctx))"
    unfolding siteMetrics_eq Let_def dep_calculateFleetStatuses dep_allocateFleetsToTranches
      dep_economics st
    by (rule map_filter_field_cong) (rule dep_siteMetricsOf)
  show "map sm_opexCost (siteMetrics (calculateMonthMetrics mth (withDepreciationInputs g h ctx))) =
        map sm_opexCost (siteMetrics (calculateMonthMetrics mth ctx))"
    unfolding siteMetrics_eq Let_def dep_calculateFleetStatuses dep_allocateFleetsToTranches
      dep_economics st
    by (rule map_filter_field_cong) (rule dep_siteMetricsOf)
  show "map sm_teamCost (siteMetrics (calculateMonthMetrics mth (withDepreciationInputs g h ctx))) =
        map sm_teamCost (siteMetrics (calculateMonthMetrics mth ctx))"
    unfolding siteMetrics_eq Let_def dep_calculateFleetStatuses dep_allocateFleetsToTranches
      dep_economics st
    by (rule map_filter_field_cong) (rule dep_siteMetricsOf)
qed

lemma ebitda_eq:
  "ebitda (calculateMonthMetrics mth ctx) =
     sum_list (map sm_btcMined (siteMetrics (calculateMonthMetrics mth ctx))) * btcPriceUSDOf mth ctx -
     (sum_list (map sm_electricityCost (siteMetrics (calculateMonthMetrics mth ctx))) +
      sum_list (map sm_opexCost (siteMetrics (calculateMonthMetrics mth ctx))) +
      (sum_list (map sm_teamCost (siteMetrics (calculateMonthMetrics mth ctx))) +
       calculateTeamCosts mth ctx company None))"
  by (simp add: calculateMonthMetrics_def Let_def reduceSum_sum_list)

lemma ebitda_independent:
  "ebitda (calculateMonthMetrics mth (withDepreciationInputs g h ctx)) =
   ebitda (calculateMonthMetrics mth ctx)"
  unfolding ebitda_eq dep_siteMetrics dep_economics dep_calculateTeamCosts by (rule refl)

text \<open>The example month, computed: the figures agree with a calculation by hand.\<close>

lemma ex_reward: "getBlockReward exMonth = 625 / 100"
  by (simp add: getBlockReward_def HALVING_DATES_def mkDate_def dateKey_def exMonth_def)

lemma ex_econ: "btcPriceUSDOf exMonth exCtx = 40000" "globalHashrateEHOf exMonth exCtx = 500"
  "txFeesPerBlockOf exMonth exCtx = 5 / 100"
  by (simp_all add: btcPriceUSDOf_def globalHashrateEHOf_def txFeesPerBlockOf_def economicData_def
      orDefault_def exCtx_def)

lemma ex_company_team: "calculateTeamCosts exMonth exCtx company None = 10000"
  by (simp add: calculateTeamCosts_def ex_defs date_defs)

lemma ex_site_team: "calculateTeamCosts exMonth exCtx site x = 0" "calculateTeamCosts exMonth exCtx tranche x = 0"
  by (simp_all add: calculateTeamCosts_def ex_defs date_defs)

lemma ex_alloc: "allocateFleetsToTranches exMonth exCtx (calculateFleetStatuses exMonth exCtx) =
   [\<lparr>ts_siteId = ''S1'', ts_trancheId = ''T1'', ts_availablePowerMW = 3,
        ts_allocatedMiners = 1000, ts_powerUsedMW = 3, ts_hashrateThs = 200000\<rparr>]"
  by (simp add: allocateFleetsToTranches_def ex_run)

lemma ex_site_depreciation:
  "calculateMinerDepreciation exMonth ''S1'' exCtx = 250000 / 3"
proof -
  have "filter (\<lambda>a. a_siteId a = ''S1'') (fleetAssignments exCtx) =
     [\<lparr>a_fleetId = ''B'', a_siteId = ''S1'', a_priority = 2\<rparr>,
      \<lparr>a_fleetId = ''A'', a_siteId = ''S1'', a_priority = 1\<rparr>]"
    by (simp add: exCtx_def exAssignments_def)
  then show ?thesis
    by (simp add: calculateMinerDepreciation_sum ex_assignment_depreciation)
qed

lemma ex_sites: "sites exCtx = [exSite1, exSite2]"
  by (simp add: exCtx_def)

lemma ex_site_fields:
  "site_id exSite1 = ''S1''" "site_name exSite1 = ''North''" "site_tranches exSite1 = [exTranche1]"
  "site_id exSite2 = ''S2''"
  by (simp_all add: exSite1_def exSite2_def)

lemma ex_site_metrics:
  "siteMetrics (calculateMonthMetrics exMonth exCtx) =
     [\<lparr>sm_siteId = ''S1'', sm_siteName = ''North'', sm_activeMiners = 1000, sm_powerUsedMW = 3,
       sm_hashrateThs = 200000, sm_btcMined = 108864 / 10000, sm_revenue = 435456,
       sm_electricityCost = 109500, sm_opexCost = 1000, sm_capexDepreciation = 10000,
       sm_minerDepreciation = 250000 / 3, sm_teamCost = 0,
       sm_totalExpenses = 109500 + 1000 + 10000 + 250000 / 3, sm_ebitda = 435456 - 110500\<rparr>]"
  unfolding siteMetrics_eq ex_alloc ex_econ ex_reward Let_def ex_sites
  by (simp add: siteMetricsOf_def Let_def reduceSum_def ex_site_team ex_site_fields
      ex_site_depreciation exTranche1_def exCapex_def exOpex_def capexTotal_def opexTotal_def
      BLOCKS_PER_MONTH_def BLOCKS_PER_DAY_def DAYS_PER_MONTH_def HOURS_PER_MONTH_def
      SITE_CAPEX_DEPRECIATION_YEARS_def)

lemma ex_ebitda: "ebitda (calculateMonthMetrics exMonth exCtx) = 314956"
  unfolding ebitda_eq ex_site_metrics ex_econ ex_company_team by simp


text \<open>
  C6. In every month the company-wide EBITDA is the revenue minus the sum of
  electricity, OPEX and staffing cost, where the staffing cost is that of the
  sites plus the company-scope staffing. Neither depreciation enters it:
  replacing every tranche's CAPEX breakdown and every model's price per TH/s,
  the inputs that only depreciation reads, leaves the EBITDA unchanged.
\<close>

theorem C6_ebitda_identity:
  "ebitda (calculateMonthMetrics mth ctx) =
     revenueUSD (calculateMonthMetrics mth ctx) -
     (electricityCost (calculateMonthMetrics mth ctx) + opexCost (calculateMonthMetrics mth ctx) +
      teamCost (calculateMonthMetrics mth ctx)) \<and>
   teamCost (calculateMonthMetrics mth ctx) =
     reduceSum sm_teamCost (siteMetrics (calculateMonthMetrics mth ctx)) +
     calculateTeamCosts mth ctx company None \<and>
   ebitda (calculateMonthMetrics mth (withDepreciationInputs capexOf priceOf ctx)) =
     ebitda (calculateMonthMetrics mth ctx)"
proof (intro conjI)
  show "ebitda (calculateMonthMetrics mth ctx) =
     revenueUSD (calculateMonthMetrics mth ctx) -
     (electricityCost (calculateMonthMetrics mth ctx) + opexCost (calculateMonthMetrics mth ctx) +
      teamCost (calculateMonthMetrics mth ctx))"
    by (simp add: calculateMonthMetrics_def Let_def)
  show "teamCost (calculateMonthMetrics mth ctx) =
     reduceSum sm_teamCost (siteMetrics (calculateMonthMetrics mth ctx)) +
     calculateTeamCosts mth ctx company None"
    by (simp add: calculateMonthMetrics_def Let_def)
  show "ebitda (calculateMonthMetrics mth (withDepreciationInputs capexOf priceOf ctx)) =
     ebitda (calculateMonthMetrics mth ctx)"
    by (rule ebitda_independent)
qed


theorem C6_ebitda_witness:
  "ebitda (calculateMonthMetrics exMonth (withDepreciationInputs (\<lambda>tr. exZeroCapex) (\<lambda>m. 0) exCtx)) =
     314956 \<and>
   ebitda (calculateMonthMetrics exMonth exCtx) =
     revenueUSD (calculateMonthMetrics exMonth exCtx) -
     (electricityCost (calculateMonthMetrics exMonth exCtx) +
      opexCost (calculateMonthMetrics exMonth exCtx) +
      teamCost (calculateMonthMetrics exMonth exCtx))"
  using C6_ebitda_identity [of exMonth exCtx "\<lambda>tr. exZeroCapex" "\<lambda>m. 0"] ex_ebitda by simp

section \<open>Properties of the economic inputs\<close>

lemma md_fields:
  "sites (ctx\<lparr>monthlyData := md\<rparr>) = sites ctx"
  "fleets (ctx\<lparr>monthlyData := md\<rparr>) = fleets ctx"
  "fleetAssignments (ctx\<lparr>monthlyData := md\<rparr>) = fleetAssignments ctx"
  "teamMembers (ctx\<lparr>monthlyData := md\<rparr>) = teamMembers ctx"
  "asicModels (ctx\<lparr>monthlyData := md\<rparr>) = asicModels ctx"
  "teamProfiles (ctx\<lparr>monthlyData := md\<rparr>) = teamProfiles ctx"
  by simp_all

lemma md_calculateFleetStatus:
  "calculateFleetStatus mth (ctx\<lparr>monthlyData := md\<rparr>) = calculateFleetStatus mth ctx"
  unfolding calculateFleetStatus_def md_fields by (rule refl)

lemma md_calculateFleetStatuses:
  "calculateFleetStatuses mth (ctx\<lparr>monthlyData := md\<rparr>) = calculateFleetStatuses mth ctx"
  unfolding calculateFleetStatuses_def md_fields md_calculateFleetStatus by (rule refl)

lemma md_allTranches: "allTranches (ctx\<lparr>monthlyData := md\<rparr>) = allTranches ctx"
  unfolding allTranches_def md_fields by (rule refl)

lemma md_buildTrancheStatuses:
  "buildTrancheStatuses mth (ctx\<lparr>monthlyData := md\<rparr>) = buildTrancheStatuses mth ctx"
  unfolding buildTrancheStatuses_def md_fields by (rule refl)

lemma md_trancheSortKey: "trancheSortKey (ctx\<lparr>monthlyData := md\<rparr>) = trancheSortKey ctx"
  unfolding trancheSortKey_def md_allTranches by (rule refl)

lemma md_sortTrancheStatuses:
  "sortTrancheStatuses (ctx\<lparr>monthlyData := md\<rparr>) = sortTrancheStatuses ctx"
  unfolding sortTrancheStatuses_def md_trancheSortKey by (rule refl)

lemma md_trancheUptime: "trancheUptime (ctx\<lparr>monthlyData := md\<rparr>) = trancheUptime ctx"
  unfolding trancheUptime_def md_allTranches by (rule refl)

lemma md_allocateAssignment:
  "allocateAssignment (ctx\<lparr>monthlyData := md\<rparr>) = allocateAssignment ctx"
  unfolding allocateAssignment_def md_fields md_trancheUptime by (rule refl)

lemma md_allocateTranche:
  "allocateTranche (ctx\<lparr>monthlyData := md\<rparr>) = allocateTranche ctx"
  unfolding allocateTranche_def md_fields md_allocateAssignment by (rule refl)

lemma md_allocateLoop:
  "allocateLoop (ctx\<lparr>monthlyData := md\<rparr>) fss ts al = allocateLoop ctx fss ts al"
  by (induction ts arbitrary: al) (simp_all add: md_allocateTranche)

lemma md_allocateFleetsToTranches:
  "allocateFleetsToTranches mth (ctx\<lparr>monthlyData := md\<rparr>) = allocateFleetsToTranches mth ctx"
  unfolding allocateFleetsToTranches_def allocationRun_def md_allocateLoop md_sortTrancheStatuses
    md_buildTrancheStatuses by (rule refl)

lemma md_calculateTeamCosts:
  "calculateTeamCosts mth (ctx\<lparr>monthlyData := md\<rparr>) = calculateTeamCosts mth ctx"
  unfolding calculateTeamCosts_def md_fields by (rule refl)

lemma md_assignmentDepreciation:
  "assignmentDepreciation mth (ctx\<lparr>monthlyData := md\<rparr>) = assignmentDepreciation mth ctx"
  unfolding assignmentDepreciation_def md_fields by (rule refl)

lemma md_calculateMinerDepreciation:
  "calculateMinerDepreciation mth sid (ctx\<lparr>monthlyData := md\<rparr>) = calculateMinerDepreciation mth sid ctx"
  unfolding calculateMinerDepreciation_def md_fields md_assignmentDepreciation by (rule refl)

lemma md_siteMetricsOf:
  "siteMetricsOf mth (ctx\<lparr>monthlyData := md\<rparr>) = siteMetricsOf mth ctx"
  unfolding siteMetricsOf_def md_calculateMinerDepreciation md_calculateTeamCosts by (rule refl)

lemma md_fleetMetricsOf:
  "fleetMetricsOf (ctx\<lparr>monthlyData := md\<rparr>) = fleetMetricsOf ctx"
  unfolding fleetMetricsOf_def md_fields by (rule refl)

lemma metrics_same_economics:
  assumes "btcPriceUSDOf mth (ctx\<lparr>monthlyData := md\<rparr>) = btcPriceUSDOf mth ctx"
    and "globalHashrateEHOf mth (ctx\<lparr>monthlyData := md\<rparr>) = globalHashrateEHOf mth ctx"
    and "txFeesPerBlockOf mth (ctx\<lparr>monthlyData := md\<rparr>) = txFeesPerBlockOf mth ctx"
  shows "calculateMonthMetrics mth (ctx\<lparr>monthlyData := md\<rparr>) = calculateMonthMetrics mth ctx"
  unfolding calculateMonthMetrics_def assms md_fields md_calculateFleetStatuses
    md_allocateFleetsToTranches md_siteMetricsOf md_calculateTeamCosts md_fleetMetricsOf
  by (rule refl)

lemma economicData_None:
  assumes "\<forall>d \<in> set (monthlyData ctx). md_month d \<noteq> formatDate mth"
  shows "economicData mth ctx = None"
  using assms by (simp add: economicData_def find_None_iff)


lemma ex_formatDate:
  "formatDate exMonth = ''2024-01-01''" "formatDate (mkDate 2024 3 1) = ''2024-03-01''"
  by code_simp+

lemma revenueUSD_eq:
  "revenueUSD (calculateMonthMetrics mth ctx) =
     totalBTC (calculateMonthMetrics mth ctx) * btcPriceUSDOf mth ctx"
  by (simp add: calculateMonthMetrics_def Let_def)

lemma btcMined_eq:
  "btcMined (calculateMonthMetrics mth ctx) =
     (if 0 < globalHashrateEHOf mth ctx * 1000000
      then totalHashrateThs (calculateMonthMetrics mth ctx) / (globalHashrateEHOf mth ctx * 1000000)
      else 0) * getBlockReward mth * BLOCKS_PER_MONTH"
  by (simp add: calculateMonthMetrics_def Let_def)

lemma txFeeRevenueBTC_eq:
  "txFeeRevenueBTC (calculateMonthMetrics mth ctx) =
     (if 0 < globalHashrateEHOf mth ctx * 1000000
      then totalHashrateThs (calculateMonthMetrics mth ctx) / (globalHashrateEHOf mth ctx * 1000000)
      else 0) * txFeesPerBlockOf mth ctx * BLOCKS_PER_MONTH"
  by (simp add: calculateMonthMetrics_def Let_def)

lemma monthKey_eq: "monthKey (calculateMonthMetrics mth ctx) = formatDate mth"
  by (simp add: calculateMonthMetrics_def Let_def)

lemma totalBTC_eq:
  "totalBTC (calculateMonthMetrics mth ctx) =
     reduceSum sm_btcMined (siteMetrics (calculateMonthMetrics mth ctx))"
  by (simp add: calculateMonthMetrics_def Let_def)

lemma totalHashrateThs_eq:
  "totalHashrateThs (calculateMonthMetrics mth ctx) =
     reduceSum ts_hashrateThs (allocateFleetsToTranches mth ctx (calculateFleetStatuses mth ctx))"
  by (simp add: calculateMonthMetrics_def Let_def)

lemma siteMetricsOf_revenue:
  "siteMetricsOf mth ctx ts tot gross fees price s = Some sm \<Longrightarrow>
   sm_revenue sm = sm_btcMined sm * price"
  by (auto simp add: siteMetricsOf_def Let_def split: if_splits)

lemma map_filter_mem:
  "y \<in> set (List.map_filter f xs) \<Longrightarrow> \<exists>x. f x = Some y"
  by (induction xs) (auto simp add: map_filter_simps split: option.splits)

lemma site_revenue_eq:
  assumes "sm \<in> set (siteMetrics (calculateMonthMetrics mth ctx))"
  shows "sm_revenue sm = sm_btcMined sm * btcPriceUSDOf mth ctx"
proof -
  from assms obtain ts tot gross fees s where
    "siteMetricsOf mth ctx ts tot gross fees (btcPriceUSDOf mth ctx) s = Some sm"
    unfolding siteMetrics_eq Let_def by (blast dest: map_filter_mem)
  then show ?thesis by (rule siteMetricsOf_revenue)
qed

lemma ex_md_metrics:
  assumes "btcPriceUSDOf exMonth (exCtx\<lparr>monthlyData := md\<rparr>) = 40000"
    and "globalHashrateEHOf exMonth (exCtx\<lparr>monthlyData := md\<rparr>) = 500"
    and "txFeesPerBlockOf exMonth (exCtx\<lparr>monthlyData := md\<rparr>) = 5 / 100"
  shows "calculateMonthMetrics exMonth (exCtx\<lparr>monthlyData := md\<rparr>) =
         calculateMonthMetrics exMonth exCtx"
  by (rule metrics_same_economics) (simp_all add: assms ex_econ)

lemma ex_md_hashrate:
  "totalHashrateThs (calculateMonthMetrics exMonth (exCtx\<lparr>monthlyData := md\<rparr>)) = 200000"
  unfolding totalHashrateThs_eq md_calculateFleetStatuses md_allocateFleetsToTranches ex_alloc
  by (simp add: reduceSum_def)

lemma ex_totalBTC: "totalBTC (calculateMonthMetrics exMonth exCtx) = 108864 / 10000"
  unfolding totalBTC_eq ex_site_metrics by (simp add: reduceSum_def)

lemma ex_site_revenue:
  "map sm_btcMined (siteMetrics (calculateMonthMetrics exMonth exCtx)) = [108864 / 10000]"
  unfolding ex_site_metrics by simp

lemma ex_scenario_economicData: "economicData exMonth exCtxScenario = None"
  by (simp add: economicData_def exCtxScenario_def exScenario_def ex_formatDate)

lemma ex_scenario_metrics:
  "calculateMonthMetrics exMonth exCtxScenario = calculateMonthMetrics exMonth exCtx"
  unfolding exCtxScenario_def
  by (rule ex_md_metrics)
     (simp_all add: btcPriceUSDOf_def globalHashrateEHOf_def txFeesPerBlockOf_def orDefault_def
        ex_scenario_economicData[unfolded exCtxScenario_def])




lemma ex_blocks: "BLOCKS_PER_MONTH = 4320"
  by (simp add: BLOCKS_PER_MONTH_def BLOCKS_PER_DAY_def DAYS_PER_MONTH_def)

text \<open>
  C8. In a month for which the scenario has no record with that month key, the
  engine computes the month's metrics with BTC price 40000, global hashrate 500
  EH/s and transaction fee 0.05 BTC per block: the revenue of the company and of
  every site is the BTC figure times 40000, the gross BTC mined is the
  project's share of 500 EH/s times the block reward and the blocks of a month,
  the fee revenue is that share times 0.05 and the blocks of a month. The
  metrics carry the month's key and are those of a scenario holding exactly the
  default record for the month.
\<close>

theorem C8_missing_month_defaults:
  assumes "\<forall>d \<in> set (monthlyData ctx). md_month d \<noteq> formatDate mth"
  shows "btcPriceUSDOf mth ctx = 40000 \<and> globalHashrateEHOf mth ctx = 500 \<and>
         txFeesPerBlockOf mth ctx = 5 / 100 \<and>
         revenueUSD (calculateMonthMetrics mth ctx) =
           totalBTC (calculateMonthMetrics mth ctx) * 40000 \<and>
         (\<forall>sm \<in> set (siteMetrics (calculateMonthMetrics mth ctx)).
            sm_revenue sm = sm_btcMined sm * 40000) \<and>
         btcMined (calculateMonthMetrics mth ctx) =
           totalHashrateThs (calculateMonthMetrics mth ctx) / (500 * 1000000) *
           getBlockReward mth * BLOCKS_PER_MONTH \<and>
         txFeeRevenueBTC (calculateMonthMetrics mth ctx) =
           totalHashrateThs (calculateMonthMetrics mth ctx) / (500 * 1000000) *
           (5 / 100) * BLOCKS_PER_MONTH \<and>
         monthKey (calculateMonthMetrics mth ctx) = formatDate mth \<and>
         calculateMonthMetrics mth ctx =
           calculateMonthMetrics mth (ctx\<lparr>monthlyData := [defaultEconomicData mth]\<rparr>)"
proof -
  have n: "economicData mth ctx = None" using assms by (rule economicData_None)
  have d: "economicData mth (ctx\<lparr>monthlyData := [defaultEconomicData mth]\<rparr>) = Some (defaultEconomicData mth)"
    by (simp add: economicData_def defaultEconomicData_def)
  have a: "btcPriceUSDOf mth ctx = 40000" "globalHashrateEHOf mth ctx = 500"
    "txFeesPerBlockOf mth ctx = 5 / 100"
    using n by (simp_all add: btcPriceUSDOf_def globalHashrateEHOf_def txFeesPerBlockOf_def orDefault_def)
  have b: "btcPriceUSDOf mth (ctx\<lparr>monthlyData := [defaultEconomicData mth]\<rparr>) = 40000"
    "globalHashrateEHOf mth (ctx\<lparr>monthlyData := [defaultEconomicData mth]\<rparr>) = 500"
    "txFeesPerBlockOf mth (ctx\<lparr>monthlyData := [defaultEconomicData mth]\<rparr>) = 5 / 100"
    using d by (simp_all add: btcPriceUSDOf_def globalHashrateEHOf_def txFeesPerBlockOf_def orDefault_def
        defaultEconomicData_def)
  have e: "calculateMonthMetrics mth (ctx\<lparr>monthlyData := [defaultEconomicData mth]\<rparr>) = calculateMonthMetrics mth ctx"
    by (rule metrics_same_economics) (simp_all add: a b)
  have r: "revenueUSD (calculateMonthMetrics mth ctx) = totalBTC (calculateMonthMetrics mth ctx) * 40000"
    unfolding revenueUSD_eq a by (rule refl)
  have s: "\<forall>sm \<in> set (siteMetrics (calculateMonthMetrics mth ctx)). sm_revenue sm = sm_btcMined sm * 40000"
    using site_revenue_eq[of _ mth ctx] unfolding a by blast
  have m: "btcMined (calculateMonthMetrics mth ctx) =
           totalHashrateThs (calculateMonthMetrics mth ctx) / (500 * 1000000) *
           getBlockReward mth * BLOCKS_PER_MONTH"
    unfolding btcMined_eq[of mth ctx] a by simp
  have t: "txFeeRevenueBTC (calculateMonthMetrics mth ctx) =
           totalHashrateThs (calculateMonthMetrics mth ctx) / (500 * 1000000) *
           (5 / 100) * BLOCKS_PER_MONTH"
    unfolding txFeeRevenueBTC_eq[of mth ctx] a by simp
  show ?thesis using a r s m t monthKey_eq[of mth ctx] e by simp
qed

text \<open>
  January 2024 in the example, whose scenario has records for February and March
  only: 200000 TH/s against 500 EH/s at a reward of 6.25 give 10.8 BTC and 0.0864
  BTC of fees, and their sum is sold at 40000.
\<close>

theorem C8_missing_month_witness:
  "btcPriceUSDOf exMonth exCtxScenario = 40000 \<and>
   globalHashrateEHOf exMonth exCtxScenario = 500 \<and>
   txFeesPerBlockOf exMonth exCtxScenario = 5 / 100 \<and>
   revenueUSD (calculateMonthMetrics exMonth exCtxScenario) = 435456 \<and>
   map sm_revenue (siteMetrics (calculateMonthMetrics exMonth exCtxScenario)) = [435456] \<and>
   btcMined (calculateMonthMetrics exMonth exCtxScenario) = 108 / 10 \<and>
   txFeeRevenueBTC (calculateMonthMetrics exMonth exCtxScenario) = 864 / 10000 \<and>
   monthKey (calculateMonthMetrics exMonth exCtxScenario) = ''2024-01-01'' \<and>
   calculateMonthMetrics exMonth exCtxScenario =
     calculateMonthMetrics exMonth (exCtxScenario\<lparr>monthlyData := [defaultEconomicData exMonth]\<rparr>)"
proof -
  have h: "\<forall>d \<in> set (monthlyData exCtxScenario). md_month d \<noteq> formatDate exMonth"
    by (simp add: exCtxScenario_def exScenario_def ex_formatDate)
  note c = C8_missing_month_defaults [OF h]
  have th: "totalHashrateThs (calculateMonthMetrics exMonth exCtxScenario) = 200000"
    unfolding exCtxScenario_def by (rule ex_md_hashrate)
  have tb: "totalBTC (calculateMonthMetrics exMonth exCtxScenario) = 108864 / 10000"
    unfolding ex_scenario_metrics by (rule ex_totalBTC)
  have sb: "map sm_btcMined (siteMetrics (calculateMonthMetrics exMonth exCtxScenario)) = [108864 / 10000]"
    unfolding ex_scenario_metrics by (rule ex_site_revenue)
  from c have "\<forall>sm \<in> set (siteMetrics (calculateMonthMetrics exMonth exCtxScenario)).
      sm_revenue sm = sm_btcMined sm * 40000" by blast
  then have "map sm_revenue (siteMetrics (calculateMonthMetrics exMonth exCtxScenario)) =
      map (\<lambda>sm. sm_btcMined sm * 40000) (siteMetrics (calculateMonthMetrics exMonth exCtxScenario))"
    by simp
  also have "\<dots> = map (\<lambda>x. x * 40000) (map sm_btcMined (siteMetrics (calculateMonthMetrics exMonth exCtxScenario)))"
    by (simp add: comp_def)
  also have "\<dots> = [435456]" unfolding sb by simp
  finally have sr: "map sm_revenue (siteMetrics (calculateMonthMetrics exMonth exCtxScenario)) = [435456]" .
  from c have "revenueUSD (calculateMonthMetrics exMonth exCtxScenario) =
      totalBTC (calculateMonthMetrics exMonth exCtxScenario) * 40000" by blast
  then have r: "revenueUSD (calculateMonthMetrics exMonth exCtxScenario) = 435456"
    unfolding tb by simp
  from c have "btcMined (calculateMonthMetrics exMonth exCtxScenario) =
      totalHashrateThs (calculateMonthMetrics exMonth exCtxScenario) / (500 * 1000000) *
      getBlockReward exMonth * BLOCKS_PER_MONTH" by blast
  then have m: "btcMined (calculateMonthMetrics exMonth exCtxScenario) = 108 / 10"
    unfolding th ex_reward ex_blocks by simp
  from c have "txFeeRevenueBTC (calculateMonthMetrics exMonth exCtxScenario) =
      totalHashrateThs (calculateMonthMetrics exMonth exCtxScenario) / (500 * 1000000) *
      (5 / 100) * BLOCKS_PER_MONTH" by blast
  then have t: "txFeeRevenueBTC (calculateMonthMetrics exMonth exCtxScenario) = 864 / 10000"
    unfolding th ex_blocks by simp
  from c have k: "monthKey (calculateMonthMetrics exMonth exCtxScenario) = ''2024-01-01''"
    unfolding ex_formatDate by blast
  from c have rest: "btcPriceUSDOf exMonth exCtxScenario = 40000"
    "globalHashrateEHOf exMonth exCtxScenario = 500"
    "txFeesPerBlockOf exMonth exCtxScenario = 5 / 100"
    "calculateMonthMetrics exMonth exCtxScenario =
     calculateMonthMetrics exMonth (exCtxScenario\<lparr>monthlyData := [defaultEconomicData exMonth]\<rparr>)"
    by blast+
  from rest r sr m t k show ?thesis by blast
qed




end
